theory Spec2Isabelle
  imports Complex_Main "HOL-Library.Char_ord" "HOL-Library.List_Lexorder"
    "HOL-Library.Log_Nat" "HOL-Library.AList"
begin

section \<open>Python values\<close>

subsection \<open>Exceptions\<close>

text \<open>
  The exceptions that the modelled code can raise (\<^verbatim>\<open>IntegrityError\<close> is that of
  \<^verbatim>\<open>sqlite3\<close>, \<^verbatim>\<open>ResponseError\<close> that of the Redis client).
\<close>

datatype py_error =
    IntegrityError | TypeError | ZeroDivisionError | OverflowError | ValueError
  | AttributeError | NotImplementedError | ResponseError

subsection \<open>Floats\<close>

text \<open>
  A Python \<^verbatim>\<open>float\<close> is an IEEE 754 binary64 number. A finite float is modelled by
  its exact value, a rational; every arithmetic operation computes the exact result and
  rounds it to the nearest float, ties to the even significand (\<open>fl\<close>). Subnormal
  numbers are covered (the spacing below \<open>2 ^ -1022\<close> is \<open>2 ^ -1074\<close>); infinities
  and NaN are not: the exponent is not bounded above.
\<close>

definition round_half_even :: "rat \<Rightarrow> int" where
  "round_half_even q =
     (let f = \<lfloor>q\<rfloor>; d = q - of_int f
      in if d < 1 / 2 then f else if 1 / 2 < d then f + 1 else if even f then f else f + 1)"

definition pow2 :: "int \<Rightarrow> rat" where
  "pow2 e = (if 0 \<le> e then 2 ^ nat e else 1 / 2 ^ nat (- e))"

text \<open>For \<open>0 < x\<close>, \<open>ilog2 x\<close> is the exponent \<open>e\<close> with \<open>2 ^ e \<le> x < 2 ^ (e + 1)\<close>.\<close>

definition ilog2 :: "rat \<Rightarrow> int" where
  "ilog2 x =
     (let (p, q) = quotient_of x; d = bitlen p - bitlen q
      in if pow2 d \<le> x then d else d - 1)"

definition fl :: "rat \<Rightarrow> rat" where
  "fl x =
     (if x = 0 then 0
      else let u = pow2 (max (ilog2 \<bar>x\<bar>) (- 1022) - 52)
           in of_int (round_half_even (x / u)) * u)"

definition is_float :: "rat \<Rightarrow> bool" where
  "is_float x = (fl x = x)"

definition fadd :: "rat \<Rightarrow> rat \<Rightarrow> rat" where
  "fadd a b = fl (a + b)"

definition fsub :: "rat \<Rightarrow> rat \<Rightarrow> rat" where
  "fsub a b = fl (a - b)"

definition fmul :: "rat \<Rightarrow> rat \<Rightarrow> rat" where
  "fmul a b = fl (a * b)"

text \<open>True division raises \<^verbatim>\<open>ZeroDivisionError\<close> on a zero divisor.\<close>

definition fdiv :: "rat \<Rightarrow> rat \<Rightarrow> py_error + rat" where
  "fdiv a b = (if b = 0 then Inl ZeroDivisionError else Inr (fl (a / b)))"

text \<open>
  The exact result \<open>x\<close> of an operation is beyond the range of the floats when its
  rounding reaches \<open>2 ^ 1024\<close>. Dividing an \<^verbatim>\<open>int\<close> by an \<^verbatim>\<open>int\<close> then raises
  \<^verbatim>\<open>OverflowError\<close>.
\<close>

definition float_overflow :: "rat \<Rightarrow> bool" where
  "float_overflow x = (pow2 1024 \<le> \<bar>fl x\<bar>)"

text \<open>
  \<^verbatim>\<open>round(x, 3)\<close> on a float: the float nearest to the exact value of \<open>x\<close> rounded
  to three decimals.
\<close>

definition round3 :: "rat \<Rightarrow> rat" where
  "round3 x = fl (of_int (round_half_even (x * 1000)) / 1000)"

text \<open>
  The built-in \<^verbatim>\<open>sum\<close> over floats, starting from \<^verbatim>\<open>0\<close>: one rounded addition per
  element, left to right (CPython up to 3.11; later versions compensate the rounding
  errors, which changes nothing for a list of one element or when no addition rounds).
\<close>

definition py_sum :: "rat list \<Rightarrow> rat" where
  "py_sum xs = foldl fadd 0 xs"

text \<open>The spacing of the floats around \<open>x\<close>.\<close>

definition ulp :: "rat \<Rightarrow> rat" where
  "ulp x = pow2 (max (ilog2 \<bar>x\<bar>) (- 1022) - 52)"

subsection \<open>Formatting\<close>

function string_of_nat :: "nat \<Rightarrow> string" where
  "string_of_nat n =
     (if n < 10 then [char_of (48 + n)]
      else string_of_nat (n div 10) @ [char_of (48 + n mod 10)])"
  by pat_completeness auto
termination
  by (relation "measure (\<lambda>n. n)") auto

text \<open>The format \<^verbatim>\<open>{x:.0f}\<close>: the nearest integer, ties to even, with its sign.\<close>

definition format_0f :: "rat \<Rightarrow> string" where
  "format_0f x =
     (if x < 0 then ''-'' else []) @ string_of_nat (nat (round_half_even \<bar>x\<bar>))"

subsection \<open>Dictionaries\<close>

text \<open>
  A \<^verbatim>\<open>dict\<close> whose iteration order matters is an association list with distinct
  keys: assigning to a key that is present replaces the value in place, assigning to a
  new key appends it (\<^const>\<open>AList.update\<close>).
\<close>

type_synonym ('k, 'v) dict = "('k \<times> 'v) list"

definition dict_values :: "('k, 'v) dict \<Rightarrow> 'v list" where
  "dict_values d = map snd d"

text \<open>\<^verbatim>\<open>d.get(k, default)\<close>\<close>

definition dict_get :: "('k, 'v) dict \<Rightarrow> 'k \<Rightarrow> 'v \<Rightarrow> 'v" where
  "dict_get d k dflt = (case map_of d k of None \<Rightarrow> dflt | Some v \<Rightarrow> v)"

section \<open>Task records (core/task\_queue.py)\<close>

text \<open>\<^verbatim>\<open>class TaskStatus(Enum)\<close>: the six task states.\<close>

datatype TaskStatus = PENDING | ASSIGNED | PROCESSING | COMPLETED | FAILED | CANCELLED

text \<open>
  A \<^verbatim>\<open>datetime\<close> is a point in time with microsecond resolution: an integer number
  of microseconds. The clock (\<^verbatim>\<open>datetime.now()\<close>) is an argument of every operation
  that reads it; an operation that reads it several times sees one value.
\<close>

type_synonym datetime = int

text \<open>\<^verbatim>\<open>(a - b).total_seconds()\<close>, a float.\<close>

definition total_seconds :: "datetime \<Rightarrow> datetime \<Rightarrow> rat" where
  "total_seconds a b = fl (of_int (a - b) / 1000000)"

text \<open>
  Values of the keyword parameters of a task (\<^verbatim>\<open>Dict[str, Any]\<close>): an \<^verbatim>\<open>int\<close> (a
  \<^verbatim>\<open>bool\<close> is the int 0 or 1), a finite \<^verbatim>\<open>float\<close> by its exact value, a string,
  any other value that \<^verbatim>\<open>json.dumps\<close> writes (\<^verbatim>\<open>None\<close>, a list or a dictionary of
  such values), or a value on which \<^verbatim>\<open>json.dumps\<close> raises \<^verbatim>\<open>TypeError\<close> (an object
  of a class that the encoder does not know, such as a set or a datetime; it is taken
  to have no division and to be copied by \<^verbatim>\<open>copy.deepcopy\<close>). Of these values only
  the numbers can be divided by a number. A container that holds itself or an integer
  of more than 4300 digits is not among the values.
\<close>

datatype pvalue = PInt int | PFloat rat | PStr string | PJson | PObject

text \<open>
  Converting an \<^verbatim>\<open>int\<close> to its decimal text (\<^verbatim>\<open>str\<close>, \<^verbatim>\<open>json.dumps\<close>) raises
  \<^verbatim>\<open>ValueError\<close> when the text has more than 4300 digits (the default limit of
  CPython from 3.11 on).
\<close>

definition int_str_ok :: "int \<Rightarrow> bool" where
  "int_str_ok n = (\<bar>n\<bar> < 10 ^ 4300)"

fun json_dumps_error :: "pvalue \<Rightarrow> py_error option" where
  "json_dumps_error PObject = Some TypeError"
| "json_dumps_error (PInt n) = (if int_str_ok n then None else Some ValueError)"
| "json_dumps_error v = None"

text \<open>
  \<^verbatim>\<open>json.dumps(task.parameters)\<close> raises the exception of the first value it cannot
  write. The parameters are not ordered here: when values of both kinds are among
  them the result is \<^verbatim>\<open>TypeError\<close>.
\<close>

definition json_dumps_parameters :: "(string \<rightharpoonup> pvalue) \<Rightarrow> py_error option" where
  "json_dumps_parameters params =
     (if \<exists>v\<in>ran params. json_dumps_error v = Some TypeError then Some TypeError
      else if \<exists>v\<in>ran params. json_dumps_error v = Some ValueError then Some ValueError
      else None)"

text \<open>An \<^verbatim>\<open>int\<close> that SQLite can store: a signed integer of 64 bits.\<close>

definition int64 :: "int \<Rightarrow> bool" where
  "int64 n = (- (2 ^ 63) \<le> n \<and> n < 2 ^ 63)"

text \<open>\<^verbatim>\<open>@dataclass class Task\<close>. The field \<^verbatim>\<open>id\<close> is called \<open>tid\<close> here.\<close>

record Task =
  tid :: string
  description :: string
  task_type :: string
  priority :: int
  parameters :: "string \<rightharpoonup> pvalue"
  worker_type :: string
  status :: TaskStatus
  created_at :: datetime
  assigned_at :: "datetime option"
  started_at :: "datetime option"
  completed_at :: "datetime option"
  assigned_worker :: "string option"
  result :: "string option"
  error :: "string option"
  retry_count :: int
  max_retries :: int
  timeout_seconds :: int
  cost_estimate :: rat
  dependencies :: "string list"

section \<open>The SQLite backend\<close>

text \<open>
  The table \<^verbatim>\<open>tasks\<close> is the list of its rows in insertion order; \<^verbatim>\<open>id\<close> is the
  primary key, so the ids of a table are distinct (\<open>wf_db\<close>). Every writing method of
  the backend holds \<^verbatim>\<open>self.lock\<close> for its whole body and is one function on the
  table. The text columns that hold a status or a time are typed as the values they
  encode.
\<close>

type_synonym sqlite_db = "Task list"

definition wf_db :: "sqlite_db \<Rightarrow> bool" where
  "wf_db db = distinct (map tid db)"

text \<open>
  \<^verbatim>\<open>SQLiteQueueBackend.add_task\<close>: the \<^verbatim>\<open>INSERT\<close> names twelve columns; the others
  take their defaults (\<^verbatim>\<open>NULL\<close>, and 0 for \<^verbatim>\<open>retry_count\<close>). The arguments of the
  statement are built first, so \<^verbatim>\<open>json.dumps(task.parameters)\<close> raises before the
  statement runs; binding an \<^verbatim>\<open>int\<close> that does not fit into 64 bits raises
  \<^verbatim>\<open>OverflowError\<close>; a second row with the same primary key is refused
  (\<^verbatim>\<open>sqlite3.IntegrityError\<close>). An exception leaves the table as it was. The database
  file is taken to be readable and writable.
\<close>

definition sqlite_add_task :: "Task \<Rightarrow> sqlite_db \<Rightarrow> py_error + (string \<times> sqlite_db)" where
  "sqlite_add_task task db =
     (case json_dumps_parameters (parameters task) of
        Some e \<Rightarrow> Inl e
      | None \<Rightarrow>
          (if \<not> (int64 (priority task) \<and> int64 (max_retries task) \<and>
                  int64 (timeout_seconds task))
           then Inl OverflowError
           else if tid task \<in> set (map tid db) then Inl IntegrityError
           else Inr (tid task,
                     db @ [task\<lparr>assigned_at := None, started_at := None,
                                completed_at := None, assigned_worker := None,
                                result := None, error := None, retry_count := 0\<rparr>])))"

text \<open>
  \<^verbatim>\<open>SELECT * FROM tasks WHERE status = 'pending' [AND worker_type = ?]\<close>; the second
  condition is added under \<^verbatim>\<open>if worker_type:\<close>, that is for a non-empty string.
\<close>

definition pending_rows :: "string option \<Rightarrow> sqlite_db \<Rightarrow> Task list" where
  "pending_rows wt db =
     filter (\<lambda>t. status t = PENDING \<and>
                  (case wt of None \<Rightarrow> True
                   | Some w \<Rightarrow> (if w = [] then True else worker_type t = w))) db"

text \<open>
  \<^verbatim>\<open>ORDER BY priority DESC, created_at ASC LIMIT 1\<close>: \<open>precedes a b\<close> says that row
  \<open>a\<close> sorts strictly before row \<open>b\<close>; of rows that agree on both keys the one
  inserted first is taken.
\<close>

definition precedes :: "Task \<Rightarrow> Task \<Rightarrow> bool" where
  "precedes a b =
     (priority b < priority a \<or> (priority a = priority b \<and> created_at a < created_at b))"

fun order_limit_1 :: "Task list \<Rightarrow> Task option" where
  "order_limit_1 [] = None"
| "order_limit_1 (t # ts) =
     (case order_limit_1 ts of
        None \<Rightarrow> Some t
      | Some b \<Rightarrow> (if precedes b t then Some b else Some t))"

text \<open>
  \<^verbatim>\<open>SELECT status FROM tasks WHERE id = ?\<close> followed by
  \<^verbatim>\<open>if not dep_row or dep_row['status'] != 'completed'\<close>.
\<close>

definition dep_completed :: "sqlite_db \<Rightarrow> string \<Rightarrow> bool" where
  "dep_completed db d =
     (case find (\<lambda>t. tid t = d) db of None \<Rightarrow> False | Some r \<Rightarrow> status r = COMPLETED)"

text \<open>
  \<^verbatim>\<open>SQLiteQueueBackend.get_next_task\<close>. The row with the best sort key is read; if one
  of its dependencies is not completed the method returns \<^verbatim>\<open>None\<close> at once; otherwise
  the row is updated to \<^verbatim>\<open>assigned\<close> and the task is built from the row as it was read
  (before the update).
\<close>

definition sqlite_get_next_task ::
  "datetime \<Rightarrow> string option \<Rightarrow> sqlite_db \<Rightarrow> Task option \<times> sqlite_db" where
  "sqlite_get_next_task now wt db =
     (case order_limit_1 (pending_rows wt db) of
        None \<Rightarrow> (None, db)
      | Some row \<Rightarrow>
          (if \<not> list_all (dep_completed db) (dependencies row) then (None, db)
           else (Some row,
                 map (\<lambda>t. if tid t = tid row
                           then t\<lparr>status := ASSIGNED, assigned_at := Some now\<rparr> else t) db)))"

text \<open>
  The argument \<^verbatim>\<open>updates\<close> of \<^verbatim>\<open>update_task\<close>: one entry per key of the dictionary.
  \<open>Set_other k\<close> stands for a key that is none of the columns the method writes.
\<close>

datatype field_update =
    Set_status TaskStatus
  | Set_assigned_worker "string option"
  | Set_result "string option"
  | Set_error "string option"
  | Set_retry_count int
  | Set_created_at datetime
  | Set_assigned_at "datetime option"
  | Set_started_at "datetime option"
  | Set_completed_at "datetime option"
  | Set_other string

text \<open>
  \<^verbatim>\<open>if key in ['status', 'assigned_worker', 'result', 'error', 'retry_count']\<close> or
  \<^verbatim>\<open>key.endswith('_at')\<close>: the key becomes a \<^verbatim>\<open>SET\<close> clause.
\<close>

fun is_column :: "field_update \<Rightarrow> bool" where
  "is_column (Set_other k) = False"
| "is_column u = True"

fun apply_update :: "field_update \<Rightarrow> Task \<Rightarrow> Task" where
  "apply_update (Set_status v) t = t\<lparr>status := v\<rparr>"
| "apply_update (Set_assigned_worker v) t = t\<lparr>assigned_worker := v\<rparr>"
| "apply_update (Set_result v) t = t\<lparr>result := v\<rparr>"
| "apply_update (Set_error v) t = t\<lparr>error := v\<rparr>"
| "apply_update (Set_retry_count v) t = t\<lparr>retry_count := v\<rparr>"
| "apply_update (Set_created_at v) t = t\<lparr>created_at := v\<rparr>"
| "apply_update (Set_assigned_at v) t = t\<lparr>assigned_at := v\<rparr>"
| "apply_update (Set_started_at v) t = t\<lparr>started_at := v\<rparr>"
| "apply_update (Set_completed_at v) t = t\<lparr>completed_at := v\<rparr>"
| "apply_update (Set_other k) t = t"

text \<open>
  \<^verbatim>\<open>SQLiteQueueBackend.update_task\<close>: with no \<^verbatim>\<open>SET\<close> clause it returns
  \<^verbatim>\<open>False\<close>; otherwise it runs \<^verbatim>\<open>UPDATE tasks SET ... WHERE id = ?\<close> and returns
  \<^verbatim>\<open>cursor.rowcount > 0\<close>.
\<close>

definition sqlite_update_task ::
  "string \<Rightarrow> field_update list \<Rightarrow> sqlite_db \<Rightarrow> bool \<times> sqlite_db" where
  "sqlite_update_task i updates db =
     (let set_clauses = filter is_column updates
      in if set_clauses = [] then (False, db)
         else (i \<in> set (map tid db),
               map (\<lambda>t. if tid t = i then fold apply_update set_clauses t else t) db))"

text \<open>\<^verbatim>\<open>SQLiteQueueBackend.get_task\<close>: \<^verbatim>\<open>SELECT * FROM tasks WHERE id = ?\<close>.\<close>

definition sqlite_get_task :: "string \<Rightarrow> sqlite_db \<Rightarrow> Task option" where
  "sqlite_get_task i db = find (\<lambda>t. tid t = i) db"

text \<open>
  \<^verbatim>\<open>SQLiteQueueBackend.list_tasks\<close>: the optional filters, then
  \<^verbatim>\<open>ORDER BY created_at DESC\<close>; rows of equal \<open>created_at\<close> keep the order of the
  table.
\<close>

definition sqlite_list_tasks :: "TaskStatus option \<Rightarrow> string option \<Rightarrow> sqlite_db \<Rightarrow> Task list" where
  "sqlite_list_tasks st wt db =
     (sort_key (\<lambda>t. - created_at t)
       (filter (\<lambda>t. (case st of None \<Rightarrow> True | Some s \<Rightarrow> status t = s) \<and>
                     (case wt of None \<Rightarrow> True
                      | Some w \<Rightarrow> (if w = [] then True else worker_type t = w))) db))"

section \<open>The Redis backend\<close>

text \<open>
  The Redis server holds, for every task, the hash \<^verbatim>\<open>task:{id}\<close>, modelled by the
  task it decodes to, and sorted sets of task ids under the keys
  \<^verbatim>\<open>queue:{worker_type}:pending\<close> and \<^verbatim>\<open>queue:{worker_type}:processing\<close>. A sorted
  set maps each member to a score; its order is by score, members of equal score in
  the lexicographic order of their bytes. Every command of the client is one atomic
  step of the server.
\<close>

type_synonym zset = "(string \<times> rat) list"

record redis_state =
  hashes :: "string \<rightharpoonup> Task"
  zsets :: "string \<Rightarrow> zset"

definition pending_key :: "string \<Rightarrow> string" where
  "pending_key wt = ''queue:'' @ wt @ '':pending''"

definition processing_key :: "string \<Rightarrow> string" where
  "processing_key wt = ''queue:'' @ wt @ '':processing''"

text \<open>\<^verbatim>\<open>ZADD key score member\<close>: adds the member or replaces its score.\<close>

definition zadd :: "string \<Rightarrow> string \<Rightarrow> rat \<Rightarrow> redis_state \<Rightarrow> redis_state" where
  "zadd key member score r = r\<lparr>zsets := (zsets r)(key := AList.update member score (zsets r key))\<rparr>"

text \<open>\<^verbatim>\<open>ZREM key member\<close>\<close>

definition zrem :: "string \<Rightarrow> string \<Rightarrow> redis_state \<Rightarrow> redis_state" where
  "zrem key member r = r\<lparr>zsets := (zsets r)(key := AList.delete member (zsets r key))\<rparr>"

text \<open>The order of a sorted set on its entries.\<close>

definition zless :: "string \<times> rat \<Rightarrow> string \<times> rat \<Rightarrow> bool" where
  "zless a b = (snd a < snd b \<or> (snd a = snd b \<and> fst a < fst b))"

fun zmax :: "zset \<Rightarrow> (string \<times> rat) option" where
  "zmax [] = None"
| "zmax (x # xs) =
     (case zmax xs of None \<Rightarrow> Some x | Some y \<Rightarrow> (if zless x y then Some y else Some x))"

text \<open>\<^verbatim>\<open>ZREVRANGE key 0 0\<close>: the greatest member, if there is one.\<close>

definition zrevrange_0_0 :: "string \<Rightarrow> redis_state \<Rightarrow> string list" where
  "zrevrange_0_0 key r = (case zmax (zsets r key) of None \<Rightarrow> [] | Some (m, s) \<Rightarrow> [m])"

text \<open>
  \<^verbatim>\<open>RedisQueueBackend.add_task\<close>: the result is the id, or the exception raised, and
  the state of the server. The mapping of \<^verbatim>\<open>HSET\<close> is built first, field by field
  in the order of the dataclass: \<^verbatim>\<open>str(priority)\<close>, \<^verbatim>\<open>json.dumps(parameters)\<close>, then
  \<^verbatim>\<open>str\<close> of the other integers; an exception there leaves the server as it was.
  Then \<^verbatim>\<open>HSET\<close> writes every field, and \<^verbatim>\<open>ZADD\<close> adds the id with the priority as
  score. The server keeps a score as a float and refuses one beyond the range of the
  floats (\<^verbatim>\<open>ResponseError\<close>); the hash is written by then. The server is taken to be
  reachable.

  A field that is \<^verbatim>\<open>None\<close> is stored as the text \<^verbatim>\<open>'None'\<close>, which the readers
  decode to that string and not to \<^verbatim>\<open>None\<close>. For the fields \<open>assigned_worker\<close>,
  \<open>result\<close> and \<open>error\<close> the decoded task holds the string. For the three time
  fields a decoded task never holds \<^verbatim>\<open>None\<close>, and the value \<open>None\<close> of the model
  stands for the string \<^verbatim>\<open>'None'\<close>: a function that reads such a field of a decoded
  task treats it so.
\<close>

definition redis_add_task ::
  "Task \<Rightarrow> redis_state \<Rightarrow> (py_error + string) \<times> redis_state" where
  "redis_add_task task r =
     (if \<not> int_str_ok (priority task) then (Inl ValueError, r)
      else case json_dumps_parameters (parameters task) of
             Some e \<Rightarrow> (Inl e, r)
           | None \<Rightarrow>
               (if \<not> (int_str_ok (retry_count task) \<and> int_str_ok (max_retries task) \<and>
                       int_str_ok (timeout_seconds task))
                then (Inl ValueError, r)
                else
                  (let str = (\<lambda>v. case v of None \<Rightarrow> Some ''None'' | Some s \<Rightarrow> Some s);
                       stored = task\<lparr>assigned_worker := str (assigned_worker task),
                                     result := str (result task),
                                     error := str (error task)\<rparr>;
                       r1 = r\<lparr>hashes := (hashes r)(tid task \<mapsto> stored)\<rparr>
                   in if float_overflow (of_int (priority task)) then (Inl ResponseError, r1)
                      else (Inr (tid task),
                            zadd (pending_key (worker_type task)) (tid task)
                              (fl (of_int (priority task))) r1))))"

text \<open>\<^verbatim>\<open>RedisQueueBackend.get_task\<close>: \<^verbatim>\<open>HGETALL task:{id}\<close>.\<close>

definition redis_get_task :: "string \<Rightarrow> redis_state \<Rightarrow> Task option" where
  "redis_get_task i r = hashes r i"

text \<open>
  \<^verbatim>\<open>RedisQueueBackend.get_next_task\<close>, as one caller runs it alone: \<^verbatim>\<open>ZREVRANGE\<close>,
  \<^verbatim>\<open>ZREM\<close>, \<^verbatim>\<open>ZADD\<close> with \<^verbatim>\<open>time.time()\<close> as score, \<^verbatim>\<open>HGETALL\<close>. The hash is
  not written and no dependency is read.
\<close>

definition redis_get_next_task ::
  "rat \<Rightarrow> string option \<Rightarrow> redis_state \<Rightarrow> Task option \<times> redis_state" where
  "redis_get_next_task time wt r =
     (case wt of
        None \<Rightarrow> (None, r)
      | Some w \<Rightarrow>
          (if w = [] then (None, r)
           else (case zrevrange_0_0 (pending_key w) r of
                   [] \<Rightarrow> (None, r)
                 | task_id # _ \<Rightarrow>
                     (let r1 = zrem (pending_key w) task_id r;
                          r2 = zadd (processing_key w) task_id time r1
                      in (hashes r2 task_id, r2)))))"

text \<open>
  The same method command by command, for callers in several processes: the position
  of one caller in the body of the method, and the step that runs its next command.
\<close>

datatype claim_pc =
    At_zrevrange
  | At_zrem string
  | At_zadd string
  | At_hgetall string
  | Returned "Task option"

fun claim_step :: "rat \<Rightarrow> string \<Rightarrow> redis_state \<Rightarrow> claim_pc \<Rightarrow> redis_state \<times> claim_pc" where
  "claim_step time w r At_zrevrange =
     (case zrevrange_0_0 (pending_key w) r of
        [] \<Rightarrow> (r, Returned None)
      | task_id # _ \<Rightarrow> (r, At_zrem task_id))"
| "claim_step time w r (At_zrem task_id) = (zrem (pending_key w) task_id r, At_zadd task_id)"
| "claim_step time w r (At_zadd task_id) =
     (zadd (processing_key w) task_id time r, At_hgetall task_id)"
| "claim_step time w r (At_hgetall task_id) = (r, Returned (hashes r task_id))"
| "claim_step time w r (Returned v) = (r, Returned v)"

text \<open>
  Two callers of \<^verbatim>\<open>get_next_task(w)\<close> on one server; a schedule says which caller
  runs its next command (\<open>False\<close> the first caller, \<open>True\<close> the second).
\<close>

fun run_schedule ::
  "rat \<Rightarrow> string \<Rightarrow> bool list \<Rightarrow> redis_state \<times> claim_pc \<times> claim_pc
     \<Rightarrow> redis_state \<times> claim_pc \<times> claim_pc" where
  "run_schedule time w [] s = s"
| "run_schedule time w (b # bs) (r, p1, p2) =
     (if b then (case claim_step time w r p2 of (r', p2') \<Rightarrow> run_schedule time w bs (r', p1, p2'))
      else (case claim_step time w r p1 of (r', p1') \<Rightarrow> run_schedule time w bs (r', p1', p2)))"

section \<open>The task queue (class TaskQueue)\<close>

text \<open>
  First the methods of \<^verbatim>\<open>TaskQueue(backend_type="sqlite")\<close>, the default, where
  \<^verbatim>\<open>get_next_task\<close>, \<^verbatim>\<open>update_task_status\<close>, \<^verbatim>\<open>get_task\<close> and \<^verbatim>\<open>list_tasks\<close>
  hand their arguments to the SQLite backend; then, in the last subsection, the
  methods of a queue on either backend.
\<close>

definition worker_mapping :: "(string, string) dict" where
  "worker_mapping =
     [(''scrape_source'', ''scraper''),
      (''scrape_social'', ''scraper''),
      (''scrape_rss'', ''scraper''),
      (''generate_briefing'', ''summarizer''),
      (''analyze_sentiment'', ''summarizer''),
      (''extract_topics'', ''summarizer''),
      (''generate_audio'', ''audio''),
      (''create_podcast_episode'', ''audio''),
      (''generate_rss_feed'', ''audio''),
      (''deliver_briefing'', ''dashboard''),
      (''send_email_digest'', ''dashboard''),
      (''export_to_notion'', ''dashboard''),
      (''start_dashboard'', ''dashboard'')]"

text \<open>\<^verbatim>\<open>TaskQueue._determine_worker_type\<close>: \<^verbatim>\<open>worker_mapping.get(task_type, 'general')\<close>.\<close>

definition determine_worker_type :: "string \<Rightarrow> string" where
  "determine_worker_type tt = dict_get worker_mapping tt ''general''"

definition base_costs :: "(string, rat) dict" where
  "base_costs =
     [(''scrape_source'', fl (1 / 100)),
      (''generate_briefing'', fl (5 / 100)),
      (''generate_audio'', fl (10 / 100)),
      (''deliver_briefing'', fl (2 / 100))]"

text \<open>
  \<^verbatim>\<open>TaskQueue._estimate_task_cost\<close>. Dividing a parameter that is not a number raises
  \<^verbatim>\<open>TypeError\<close>; dividing an \<^verbatim>\<open>int\<close> whose tenth is beyond the floats raises
  \<^verbatim>\<open>OverflowError\<close>. The base cost is below 1, so the product is within the floats.
\<close>

definition estimate_task_cost :: "string \<Rightarrow> (string \<rightharpoonup> pvalue) \<Rightarrow> py_error + rat" where
  "estimate_task_cost tt params =
     (let base_cost = dict_get base_costs tt (fl (1 / 100));
          base_cost = (if ''source_url'' \<in> dom params then fmul base_cost (fl (12 / 10))
                       else base_cost)
      in case params ''max_posts'' of
           None \<Rightarrow> Inr (round3 base_cost)
         | Some (PInt v) \<Rightarrow>
             (if float_overflow (of_int v / 10) then Inl OverflowError
              else Inr (round3 (fmul base_cost (fl (of_int v / 10)))))
         | Some (PFloat v) \<Rightarrow> Inr (round3 (fmul base_cost (fl (v / 10))))
         | Some v \<Rightarrow> Inl TypeError)"

text \<open>
  The part of \<^verbatim>\<open>TaskQueue.submit_task\<close> before the call of the backend: the worker
  type, the id, the cost estimate and the task. \<open>new_id\<close> is the value of
  \<^verbatim>\<open>str(uuid.uuid4())[:8]\<close> and \<open>now\<close> the clock read by \<^verbatim>\<open>Task.__post_init__\<close>.
  The fields that the call of \<^verbatim>\<open>Task(...)\<close> leaves out take the defaults of the
  dataclass.
\<close>

definition new_task ::
  "string \<Rightarrow> datetime \<Rightarrow> string \<Rightarrow> string \<Rightarrow> string option \<Rightarrow> int \<Rightarrow> int
     \<Rightarrow> string list option \<Rightarrow> (string \<rightharpoonup> pvalue) \<Rightarrow> py_error + Task" where
  "new_task new_id now descr tt wt prio timeout deps params =
     (let w = (case wt of
                 None \<Rightarrow> determine_worker_type tt
               | Some s \<Rightarrow> (if s = [] then determine_worker_type tt else s))
      in case estimate_task_cost tt params of
           Inl e \<Rightarrow> Inl e
         | Inr cost \<Rightarrow>
             Inr \<lparr>tid = new_id, description = descr, task_type = tt, priority = prio,
                  parameters = params, worker_type = w, status = PENDING, created_at = now,
                  assigned_at = None, started_at = None, completed_at = None,
                  assigned_worker = None, result = None, error = None,
                  retry_count = 0, max_retries = 3, timeout_seconds = timeout,
                  cost_estimate = cost,
                  dependencies = (case deps of None \<Rightarrow> [] | Some d \<Rightarrow> d)\<rparr>)"

text \<open>\<^verbatim>\<open>TaskQueue.submit_task\<close> on the SQLite backend.\<close>

definition submit_task ::
  "string \<Rightarrow> datetime \<Rightarrow> string \<Rightarrow> string \<Rightarrow> string option \<Rightarrow> int \<Rightarrow> int
     \<Rightarrow> string list option \<Rightarrow> (string \<rightharpoonup> pvalue) \<Rightarrow> sqlite_db
     \<Rightarrow> py_error + (string \<times> sqlite_db)" where
  "submit_task new_id now descr tt wt prio timeout deps params db =
     (case new_task new_id now descr tt wt prio timeout deps params of
        Inl e \<Rightarrow> Inl e
      | Inr task \<Rightarrow> sqlite_add_task task db)"

text \<open>\<^verbatim>\<open>TaskQueue._calculate_progress\<close>, with its branches in the order of the source.\<close>

definition calculate_progress :: "Task \<Rightarrow> rat" where
  "calculate_progress task =
     (if status task = PENDING then 0
      else if status task = ASSIGNED then fl (1 / 10)
      else if status task = PROCESSING then fl (5 / 10)
      else if status task \<in> set [COMPLETED, FAILED] then 1
      else 0)"

text \<open>The dictionary that \<^verbatim>\<open>get_task_status\<close> returns.\<close>

record task_status_info =
  info_id :: string
  info_status :: TaskStatus
  info_progress :: rat
  info_created_at :: datetime
  info_completed_at :: "datetime option"
  info_result :: "string option"
  info_error :: "string option"

text \<open>\<^verbatim>\<open>TaskQueue.get_task_status\<close>\<close>

definition get_task_status :: "string \<Rightarrow> sqlite_db \<Rightarrow> task_status_info option" where
  "get_task_status i db =
     (case sqlite_get_task i db of
        None \<Rightarrow> None
      | Some task \<Rightarrow>
          Some \<lparr>info_id = tid task, info_status = status task,
                info_progress = calculate_progress task,
                info_created_at = created_at task, info_completed_at = completed_at task,
                info_result = result task, info_error = error task\<rparr>)"

subsection \<open>The monitor sweep\<close>

text \<open>
  One pass of the body of \<^verbatim>\<open>while self.running\<close> in \<^verbatim>\<open>TaskQueue._monitor_tasks\<close>:
  the loop over the processing tasks, then the loop over the failed tasks, each over
  the list that \<^verbatim>\<open>list_tasks\<close> returned before the loop started.
\<close>

fun check_timeouts :: "datetime \<Rightarrow> Task list \<Rightarrow> sqlite_db \<Rightarrow> sqlite_db" where
  "check_timeouts now [] db = db"
| "check_timeouts now (task # rest) db =
     (case started_at task of
        None \<Rightarrow> check_timeouts now rest db
      | Some started \<Rightarrow>
          (let elapsed = total_seconds now started
           in if of_int (timeout_seconds task) < elapsed
              then check_timeouts now rest
                     (snd (sqlite_update_task (tid task)
                        [Set_status FAILED,
                         Set_error (Some (''Task timed out after '' @ format_0f elapsed
                                          @ '' seconds'')),
                         Set_completed_at (Some now)] db))
              else check_timeouts now rest db))"

fun retry_failed :: "Task list \<Rightarrow> sqlite_db \<Rightarrow> sqlite_db" where
  "retry_failed [] db = db"
| "retry_failed (task # rest) db =
     (if retry_count task < max_retries task
      then retry_failed rest
             (snd (sqlite_update_task (tid task)
                [Set_status PENDING,
                 Set_retry_count (retry_count task + 1),
                 Set_assigned_at None,
                 Set_started_at None,
                 Set_assigned_worker None,
                 Set_error None] db))
      else retry_failed rest db)"

definition monitor_tasks :: "datetime \<Rightarrow> sqlite_db \<Rightarrow> sqlite_db" where
  "monitor_tasks now db =
     (let db1 = check_timeouts now (sqlite_list_tasks (Some PROCESSING) None db) db
      in retry_failed (sqlite_list_tasks (Some FAILED) None db1) db1)"

text \<open>
  What one pass does to a single row: \<open>timeout_row\<close> for the first loop,
  \<open>retry_row\<close> for the second.
\<close>

definition timeout_row :: "datetime \<Rightarrow> Task \<Rightarrow> Task" where
  "timeout_row now r =
     (case started_at r of
        None \<Rightarrow> r
      | Some started \<Rightarrow>
          (if status r = PROCESSING \<and> of_int (timeout_seconds r) < total_seconds now started
           then r\<lparr>status := FAILED,
                  error := Some (''Task timed out after ''
                                 @ format_0f (total_seconds now started) @ '' seconds''),
                  completed_at := Some now\<rparr>
           else r))"

definition retry_row :: "Task \<Rightarrow> Task" where
  "retry_row r =
     (if status r = FAILED \<and> retry_count r < max_retries r
      then r\<lparr>status := PENDING, retry_count := retry_count r + 1, assigned_at := None,
             started_at := None, assigned_worker := None, error := None\<rparr>
      else r)"

subsection \<open>The queue on either backend\<close>

text \<open>
  \<^verbatim>\<open>TaskQueue.__init__\<close> creates the backend that \<^verbatim>\<open>backend_type\<close> names, and every
  method of the queue calls the method of that backend.
\<close>

datatype queue_backend = SQLite_backend sqlite_db | Redis_backend redis_state

text \<open>\<^verbatim>\<open>self.backend.add_task(task)\<close>\<close>

definition tq_add_task ::
  "Task \<Rightarrow> queue_backend \<Rightarrow> (py_error + string) \<times> queue_backend" where
  "tq_add_task task b =
     (case b of
        SQLite_backend db \<Rightarrow>
          (case sqlite_add_task task db of
             Inl e \<Rightarrow> (Inl e, b)
           | Inr (i, db1) \<Rightarrow> (Inr i, SQLite_backend db1))
      | Redis_backend r \<Rightarrow>
          (case redis_add_task task r of (res, r1) \<Rightarrow> (res, Redis_backend r1)))"

text \<open>
  \<^verbatim>\<open>TaskQueue.submit_task\<close> on either backend: the task is built, the backend adds it,
  and the id that was generated is returned.
\<close>

definition tq_submit_task ::
  "string \<Rightarrow> datetime \<Rightarrow> string \<Rightarrow> string \<Rightarrow> string option \<Rightarrow> int \<Rightarrow> int
     \<Rightarrow> string list option \<Rightarrow> (string \<rightharpoonup> pvalue) \<Rightarrow> queue_backend
     \<Rightarrow> (py_error + string) \<times> queue_backend" where
  "tq_submit_task new_id now descr tt wt prio timeout deps params b =
     (case new_task new_id now descr tt wt prio timeout deps params of
        Inl e \<Rightarrow> (Inl e, b)
      | Inr task \<Rightarrow>
          (case tq_add_task task b of
             (Inl e, b1) \<Rightarrow> (Inl e, b1)
           | (Inr i, b1) \<Rightarrow> (Inr new_id, b1)))"

text \<open>\<^verbatim>\<open>TaskQueue.get_task\<close>\<close>

definition tq_get_task :: "string \<Rightarrow> queue_backend \<Rightarrow> Task option" where
  "tq_get_task i b =
     (case b of
        SQLite_backend db \<Rightarrow> sqlite_get_task i db
      | Redis_backend r \<Rightarrow> redis_get_task i r)"

text \<open>
  \<^verbatim>\<open>TaskQueue.get_task_status\<close> on either backend. A task read from SQLite has
  \<^verbatim>\<open>None\<close> in \<open>completed_at\<close> until it is set. A task decoded from Redis has the
  string \<^verbatim>\<open>'None'\<close> there, which is true as a condition, so that
  \<^verbatim>\<open>task.completed_at.isoformat()\<close> is evaluated on a string and raises
  \<^verbatim>\<open>AttributeError\<close>.
\<close>

definition tq_get_task_status ::
  "string \<Rightarrow> queue_backend \<Rightarrow> py_error + task_status_info option" where
  "tq_get_task_status i b =
     (case b of
        SQLite_backend db \<Rightarrow> Inr (get_task_status i db)
      | Redis_backend r \<Rightarrow>
          (case redis_get_task i r of
             None \<Rightarrow> Inr None
           | Some task \<Rightarrow>
               (case completed_at task of
                  None \<Rightarrow> Inl AttributeError
                | Some completed \<Rightarrow>
                    Inr (Some \<lparr>info_id = tid task, info_status = status task,
                               info_progress = calculate_progress task,
                               info_created_at = created_at task,
                               info_completed_at = Some completed,
                               info_result = result task, info_error = error task\<rparr>))))"

text \<open>
  \<^verbatim>\<open>TaskQueue.list_tasks\<close>. \<^verbatim>\<open>RedisQueueBackend\<close> does not define \<^verbatim>\<open>list_tasks\<close>: the
  call runs the method of the base class \<^verbatim>\<open>QueueBackend\<close>, whose body is
  \<^verbatim>\<open>raise NotImplementedError\<close>.
\<close>

definition tq_list_tasks ::
  "TaskStatus option \<Rightarrow> string option \<Rightarrow> queue_backend \<Rightarrow> py_error + Task list" where
  "tq_list_tasks st wt b =
     (case b of
        SQLite_backend db \<Rightarrow> Inr (sqlite_list_tasks st wt db)
      | Redis_backend r \<Rightarrow> Inl NotImplementedError)"

text \<open>
  One pass of the body of \<^verbatim>\<open>while self.running\<close> in \<^verbatim>\<open>TaskQueue._monitor_tasks\<close>
  on either backend, with its \<^verbatim>\<open>try\<close>: the result is the exception that the
  \<^verbatim>\<open>except\<close> clause caught and logged, if any, and the backend after the pass. On
  SQLite the pass is \<open>monitor_tasks\<close>. On Redis the first statement of the body,
  \<^verbatim>\<open>self.list_tasks(TaskStatus.PROCESSING)\<close>, raises; the rest of the body is skipped
  and no command is sent to the server.
\<close>

definition tq_monitor_tasks :: "datetime \<Rightarrow> queue_backend \<Rightarrow> py_error option \<times> queue_backend" where
  "tq_monitor_tasks now b =
     (case b of
        SQLite_backend db \<Rightarrow> (None, SQLite_backend (monitor_tasks now db))
      | Redis_backend r \<Rightarrow>
          (case tq_list_tasks (Some PROCESSING) None b of
             Inl e \<Rightarrow> (Some e, b)
           | Inr processing_tasks \<Rightarrow> (None, b)))"

section \<open>The cost tracker (core/cost\_tracker.py)\<close>

text \<open>\<^verbatim>\<open>@dataclass class CostEvent\<close>\<close>

record CostEvent =
  ev_timestamp :: datetime
  service :: string
  operation :: string
  units :: int
  cost_gbp :: rat
  worker_id :: string
  project_id :: "string option"
  metadata :: "string \<rightharpoonup> pvalue"

datatype AlertSeverity = INFO | WARNING | CRITICAL | EMERGENCY

text \<open>
  The message of an alert is kept as the values its format string is filled with: the
  worker id and the worker limit, or the daily total and the daily limit.
\<close>

datatype alert_message =
    Worker_limit_message string rat
  | Daily_limit_message rat rat

text \<open>\<^verbatim>\<open>@dataclass class CostAlert\<close>\<close>

record CostAlert =
  severity :: AlertSeverity
  message :: alert_message
  current_cost :: rat
  threshold :: rat
  alert_service :: string
  alert_worker_id :: string
  alert_timestamp :: datetime
  action_taken :: "string option"

text \<open>
  What the tracker writes to disk, in the order of the writes: the signal files
  \<^verbatim>\<open>EMERGENCY_SHUTDOWN\<close> (time, daily total, limit), \<^verbatim>\<open>PAUSE_NON_ESSENTIAL\<close> and
  \<^verbatim>\<open>COST_WARNING\<close>, a line of \<^verbatim>\<open>alerts.jsonl\<close>, and the daily snapshot (per-service
  totals, per-worker totals, their sum, the last hundred events).
\<close>

datatype file_write =
    Emergency_shutdown_file datetime rat rat
  | Pause_non_essential_file datetime
  | Cost_warning_file datetime rat
  | Alert_line CostAlert
  | Daily_costs_file "(string, rat) dict" "(string, rat) dict" rat "CostEvent list"

text \<open>The fields of \<^verbatim>\<open>class CostTracker\<close>, with the writes to disk as a log.\<close>

record CostTracker =
  daily_limit_gbp :: rat
  daily_costs :: "(string, rat) dict"
  worker_costs :: "(string, rat) dict"
  cost_events :: "CostEvent list"
  alerts :: "CostAlert list"
  monitoring_active :: bool
  emergency_shutdown :: bool
  files :: "file_write list"

text \<open>\<^verbatim>\<open>sum(self.daily_costs.values())\<close>\<close>

definition daily_total :: "CostTracker \<Rightarrow> rat" where
  "daily_total ct = py_sum (dict_values (daily_costs ct))"

text \<open>\<^verbatim>\<open>CostTracker._emergency_shutdown\<close>\<close>

definition ct_emergency_shutdown :: "datetime \<Rightarrow> CostTracker \<Rightarrow> CostTracker" where
  "ct_emergency_shutdown now ct =
     (if emergency_shutdown ct then ct
      else ct\<lparr>emergency_shutdown := True,
              files := files ct @ [Emergency_shutdown_file now (daily_total ct)
                                     (daily_limit_gbp ct)]\<rparr>)"

text \<open>\<^verbatim>\<open>CostTracker._pause_non_essential_workers\<close>\<close>

definition ct_pause_non_essential_workers :: "datetime \<Rightarrow> CostTracker \<Rightarrow> CostTracker" where
  "ct_pause_non_essential_workers now ct =
     ct\<lparr>files := files ct @ [Pause_non_essential_file now]\<rparr>"

text \<open>\<^verbatim>\<open>CostTracker._notify_project_manager\<close>\<close>

definition notify_project_manager :: "datetime \<Rightarrow> CostTracker \<Rightarrow> CostTracker" where
  "notify_project_manager now ct =
     ct\<lparr>files := files ct @ [Cost_warning_file now (daily_total ct)]\<rparr>"

text \<open>
  \<^verbatim>\<open>CostTracker._handle_cost_alert\<close>: the alert is appended to \<^verbatim>\<open>self.alerts\<close>, the
  action of its severity runs and is noted in the alert (the object that the list
  holds), and the alert is saved.
\<close>

definition handle_cost_alert :: "datetime \<Rightarrow> CostAlert \<Rightarrow> CostTracker \<Rightarrow> CostTracker" where
  "handle_cost_alert now alert ct =
     (let (ct1, action) =
            (if severity alert = EMERGENCY
             then (ct_emergency_shutdown now ct, Some ''emergency_shutdown'')
             else if severity alert = CRITICAL
             then (ct_pause_non_essential_workers now ct, Some ''pause_non_essential'')
             else if severity alert = WARNING
             then (notify_project_manager now ct, Some ''notification_sent'')
             else (ct, action_taken alert));
          alert1 = alert\<lparr>action_taken := action\<rparr>
      in ct1\<lparr>alerts := alerts ct1 @ [alert1], files := files ct1 @ [Alert_line alert1]\<rparr>)"

text \<open>
  \<^verbatim>\<open>CostTracker._check_cost_guardrails\<close>. The worker limit is the constant 5.0; the
  factors 0.8, 0.7 and 0.9 are floats and the products are rounded.
\<close>

definition worker_limit :: rat where
  "worker_limit = 5"

definition worker_severity :: "rat \<Rightarrow> AlertSeverity" where
  "worker_severity worker_cost = (if worker_cost < worker_limit then WARNING else CRITICAL)"

definition daily_severity :: "rat \<Rightarrow> rat \<Rightarrow> AlertSeverity" where
  "daily_severity limit total_daily_cost =
     (let sev = WARNING;
          sev = (if fmul limit (fl (9 / 10)) < total_daily_cost then CRITICAL else sev);
          sev = (if limit < total_daily_cost then EMERGENCY else sev)
      in sev)"

definition check_cost_guardrails :: "datetime \<Rightarrow> CostEvent \<Rightarrow> CostTracker \<Rightarrow> CostTracker" where
  "check_cost_guardrails now event ct =
     (let total_daily_cost = daily_total ct;
          worker_cost = dict_get (worker_costs ct) (worker_id event) 0;
          ct1 = (if fmul worker_limit (fl (8 / 10)) < worker_cost
                 then handle_cost_alert now
                        \<lparr>severity = worker_severity worker_cost,
                         message = Worker_limit_message (worker_id event) worker_limit,
                         current_cost = worker_cost, threshold = worker_limit,
                         alert_service = service event, alert_worker_id = worker_id event,
                         alert_timestamp = now, action_taken = None\<rparr> ct
                 else ct)
      in if fmul (daily_limit_gbp ct) (fl (7 / 10)) < total_daily_cost
         then handle_cost_alert now
                \<lparr>severity = daily_severity (daily_limit_gbp ct) total_daily_cost,
                 message = Daily_limit_message total_daily_cost (daily_limit_gbp ct),
                 current_cost = total_daily_cost, threshold = daily_limit_gbp ct,
                 alert_service = ''system'', alert_worker_id = ''all'',
                 alert_timestamp = now, action_taken = None\<rparr> ct1
         else ct1)"

text \<open>\<^verbatim>\<open>CostTracker._save_daily_costs\<close>; \<^verbatim>\<open>self.cost_events[-100:]\<close> are the last hundred.\<close>

definition save_daily_costs :: "CostTracker \<Rightarrow> CostTracker" where
  "save_daily_costs ct =
     ct\<lparr>files := files ct @
            [Daily_costs_file (daily_costs ct) (worker_costs ct) (daily_total ct)
               (drop (length (cost_events ct) - 100) (cost_events ct))]\<rparr>"

text \<open>
  The two statements \<^verbatim>\<open>if k not in d: d[k] = 0\<close> and \<^verbatim>\<open>d[k] += cost\<close>: one float
  addition to the entry, which is created at 0 when it is missing.
\<close>

definition add_cost :: "string \<Rightarrow> rat \<Rightarrow> (string, rat) dict \<Rightarrow> (string, rat) dict" where
  "add_cost k cost d = AList.update k (fadd (dict_get d k 0) cost) d"

text \<open>\<^verbatim>\<open>CostTracker._record_cost_event\<close>\<close>

definition record_cost_event :: "datetime \<Rightarrow> CostEvent \<Rightarrow> CostTracker \<Rightarrow> CostTracker" where
  "record_cost_event now event ct =
     (let ct1 = ct\<lparr>cost_events := cost_events ct @ [event],
                    daily_costs := add_cost (service event) (cost_gbp event) (daily_costs ct),
                    worker_costs := add_cost (worker_id event) (cost_gbp event) (worker_costs ct)\<rparr>
      in save_daily_costs (check_cost_guardrails now event ct1))"

text \<open>Recording a list of events, one after the other.\<close>

fun record_all :: "datetime \<Rightarrow> CostEvent list \<Rightarrow> CostTracker \<Rightarrow> CostTracker" where
  "record_all now [] ct = ct"
| "record_all now (event # events) ct = record_all now events (record_cost_event now event ct)"

text \<open>\<^verbatim>\<open>CostTracker.is_budget_available\<close>\<close>

definition is_budget_available :: "rat \<Rightarrow> CostTracker \<Rightarrow> bool" where
  "is_budget_available estimated_cost ct =
     (fadd (daily_total ct) estimated_cost \<le> daily_limit_gbp ct)"

text \<open>\<^verbatim>\<open>CostTracker.get_remaining_budget\<close>: \<^verbatim>\<open>max(0, limit - total)\<close>.\<close>

definition get_remaining_budget :: "CostTracker \<Rightarrow> rat" where
  "get_remaining_budget ct = max 0 (fsub (daily_limit_gbp ct) (daily_total ct))"

text \<open>
  \<^verbatim>\<open>CostTracker.get_daily_summary\<close>; the division by the limit raises
  \<^verbatim>\<open>ZeroDivisionError\<close> when the limit is zero.
\<close>

record daily_summary =
  total_cost_gbp :: rat
  summary_daily_limit_gbp :: rat
  utilization_percent :: rat
  costs_by_service :: "(string, rat) dict"
  costs_by_worker :: "(string, rat) dict"
  summary_emergency_shutdown :: bool
  alerts_count :: nat

definition get_daily_summary :: "CostTracker \<Rightarrow> py_error + daily_summary" where
  "get_daily_summary ct =
     (case fdiv (daily_total ct) (daily_limit_gbp ct) of
        Inl e \<Rightarrow> Inl e
      | Inr ratio \<Rightarrow>
          Inr \<lparr>total_cost_gbp = daily_total ct,
               summary_daily_limit_gbp = daily_limit_gbp ct,
               utilization_percent = fmul ratio 100,
               costs_by_service = daily_costs ct,
               costs_by_worker = worker_costs ct,
               summary_emergency_shutdown = emergency_shutdown ct,
               alerts_count = length (alerts ct)\<rparr>)"

text \<open>\<^verbatim>\<open>CostTracker.stop_monitoring\<close>\<close>

definition ct_stop_monitoring :: "CostTracker \<Rightarrow> CostTracker" where
  "ct_stop_monitoring ct = save_daily_costs (ct\<lparr>monitoring_active := False\<rparr>)"

text \<open>The action that \<^verbatim>\<open>_handle_cost_alert\<close> notes for a severity.\<close>

fun action_of :: "AlertSeverity \<Rightarrow> string option" where
  "action_of EMERGENCY = Some ''emergency_shutdown''"
| "action_of CRITICAL = Some ''pause_non_essential''"
| "action_of WARNING = Some ''notification_sent''"
| "action_of INFO = None"

text \<open>No addition rounds when the events are recorded one after the other.\<close>

fun exact_steps :: "CostEvent list \<Rightarrow> (string, rat) dict \<Rightarrow> bool" where
  "exact_steps [] d = True"
| "exact_steps (e # es) d =
     (is_float (dict_get d (service e) 0 + cost_gbp e) \<and>
      exact_steps es (add_cost (service e) (cost_gbp e) d))"

text \<open>No addition rounds when \<^verbatim>\<open>sum\<close> adds the list up.\<close>

definition exact_sum :: "rat list \<Rightarrow> bool" where
  "exact_sum xs = list_all (\<lambda>k. is_float (sum_list (take k xs))) [0..<Suc (length xs)]"

section \<open>The worker (core/mini\_worker.py)\<close>

datatype WorkerType = SCRAPER | SUMMARIZER | AUDIO | DASHBOARD | PROJECT_MANAGER

fun worker_type_value :: "WorkerType \<Rightarrow> string" where
  "worker_type_value SCRAPER = ''scraper''"
| "worker_type_value SUMMARIZER = ''summarizer''"
| "worker_type_value AUDIO = ''audio''"
| "worker_type_value DASHBOARD = ''dashboard''"
| "worker_type_value PROJECT_MANAGER = ''project_manager''"

text \<open>
  The fields of \<^verbatim>\<open>class MiniWorker\<close> that its methods read or write. The fields
  \<^verbatim>\<open>worker_id\<close>, \<^verbatim>\<open>worker_type\<close> and \<^verbatim>\<open>status\<close> carry the prefix \<open>mw_\<close>.
\<close>

record MiniWorker =
  mw_worker_id :: string
  mw_worker_type :: WorkerType
  mw_status :: string
  current_task :: "string option"
  start_time :: datetime
  last_activity :: datetime
  tasks_completed :: int
  error_count :: int
  max_daily_cost :: rat

text \<open>\<^verbatim>\<open>MiniWorker.stop\<close>, \<^verbatim>\<open>MiniWorker.pause\<close> and \<^verbatim>\<open>MiniWorker.resume\<close>\<close>

definition stop :: "MiniWorker \<Rightarrow> MiniWorker" where
  "stop w = w\<lparr>mw_status := ''stopped''\<rparr>"

definition pause :: "MiniWorker \<Rightarrow> MiniWorker" where
  "pause w = w\<lparr>mw_status := ''paused''\<rparr>"

definition resume :: "MiniWorker \<Rightarrow> MiniWorker" where
  "resume w = (if mw_status w = ''paused'' then w\<lparr>mw_status := ''active''\<rparr> else w)"

text \<open>
  The abstract method \<^verbatim>\<open>execute_task(task_id)\<close>: the executor of a subclass. It
  reads and writes the queue of the worker; it returns normally (\<open>Inr ()\<close>) or raises
  an exception \<open>e\<close> (\<open>Inl\<close> of the text \<^verbatim>\<open>str(e)\<close>).
\<close>

type_synonym executor = "string \<Rightarrow> sqlite_db \<Rightarrow> (string + unit) \<times> sqlite_db"

text \<open>
  \<^verbatim>\<open>MiniWorker._process_task\<close>, called by the work loop with a task that the queue of
  the worker returned (so \<^verbatim>\<open>self.task_queue\<close> is set).
\<close>

definition process_task ::
  "datetime \<Rightarrow> executor \<Rightarrow> MiniWorker \<Rightarrow> sqlite_db \<Rightarrow> Task \<Rightarrow> MiniWorker \<times> sqlite_db" where
  "process_task now execute_task w db task =
     (let w1 = w\<lparr>current_task := Some (tid task), last_activity := now\<rparr>;
          db1 = snd (sqlite_update_task (tid task)
                       [Set_status PROCESSING,
                        Set_started_at (Some now),
                        Set_assigned_worker (Some (mw_worker_id w))] db)
      in case execute_task (tid task) db1 of
           (Inr u, db2) \<Rightarrow>
             (w1\<lparr>tasks_completed := tasks_completed w1 + 1, current_task := None\<rparr>, db2)
         | (Inl e, db2) \<Rightarrow>
             (w1\<lparr>error_count := error_count w1 + 1\<rparr>,
              snd (sqlite_update_task (tid task)
                     [Set_status FAILED,
                      Set_error (Some e),
                      Set_completed_at (Some now)] db2)))"

text \<open>\<^verbatim>\<open>MiniWorker._check_budget\<close>\<close>

definition check_budget :: "CostTracker \<Rightarrow> MiniWorker \<Rightarrow> py_error + bool" where
  "check_budget ct w =
     (case get_daily_summary ct of
        Inl e \<Rightarrow> Inl e
      | Inr summary \<Rightarrow>
          Inr (dict_get (costs_by_worker summary) (mw_worker_id w) 0 < max_daily_cost w))"

text \<open>
  The condition of the loop of \<^verbatim>\<open>MiniWorker._work_loop\<close>, and one pass of its body.
  An exception in the body is counted and the loop goes on (\<^verbatim>\<open>except Exception\<close>).
\<close>

definition work_loop_running :: "MiniWorker \<Rightarrow> bool" where
  "work_loop_running w = (mw_status w \<in> set [''active'', ''paused''])"

definition work_loop_body ::
  "datetime \<Rightarrow> executor \<Rightarrow> CostTracker \<Rightarrow> MiniWorker \<Rightarrow> sqlite_db option
     \<Rightarrow> MiniWorker \<times> sqlite_db option" where
  "work_loop_body now execute_task ct w queue =
     (if mw_status w = ''paused'' then (w, queue)
      else case check_budget ct w of
             Inl e \<Rightarrow> (w\<lparr>error_count := error_count w + 1\<rparr>, queue)
           | Inr False \<Rightarrow> (pause w, queue)
           | Inr True \<Rightarrow>
               (case queue of
                  None \<Rightarrow> (w, queue)
                | Some db \<Rightarrow>
                    (case sqlite_get_next_task now
                            (Some (worker_type_value (mw_worker_type w))) db of
                       (None, db1) \<Rightarrow> (w, Some db1)
                     | (Some task, db1) \<Rightarrow>
                         (case process_task now execute_task w db1 task of
                            (w1, db2) \<Rightarrow> (w1, Some db2)))))"

text \<open>\<^verbatim>\<open>@dataclass class WorkerStatus\<close> and \<^verbatim>\<open>MiniWorker.get_status\<close>\<close>

record WorkerStatus =
  ws_worker_id :: string
  ws_worker_type :: WorkerType
  ws_status :: string
  ws_last_activity :: datetime
  ws_tasks_completed :: int
  ws_current_task :: "string option"
  cost_today :: rat
  uptime_seconds :: rat
  ws_error_count :: int

definition get_status :: "datetime \<Rightarrow> CostTracker \<Rightarrow> MiniWorker \<Rightarrow> py_error + WorkerStatus" where
  "get_status now ct w =
     (case get_daily_summary ct of
        Inl e \<Rightarrow> Inl e
      | Inr summary \<Rightarrow>
          Inr \<lparr>ws_worker_id = mw_worker_id w, ws_worker_type = mw_worker_type w,
               ws_status = mw_status w, ws_last_activity = last_activity w,
               ws_tasks_completed = tasks_completed w, ws_current_task = current_task w,
               cost_today = dict_get (costs_by_worker summary) (mw_worker_id w) 0,
               uptime_seconds = total_seconds now (start_time w),
               ws_error_count = error_count w\<rparr>)"

section \<open>The system monitor (core/system\_monitor.py)\<close>

text \<open>
  The fields of \<^verbatim>\<open>class TaskQueue\<close>: the backend and the flag of its monitor loop;
  \<^verbatim>\<open>TaskQueue.stop_monitoring\<close> clears the flag and cancels the loop.
\<close>

record TaskQueue =
  backend :: queue_backend
  running :: bool

definition tq_stop_monitoring :: "TaskQueue \<Rightarrow> TaskQueue" where
  "tq_stop_monitoring q = q\<lparr>running := False\<rparr>"

text \<open>
  \<^verbatim>\<open>@dataclass class SystemAlert\<close>; the details of the alert of an emergency shutdown
  are the reason and the time.
\<close>

record SystemAlert =
  sa_timestamp :: datetime
  sa_severity :: string
  sa_component :: string
  sa_message :: string
  sa_details :: "string \<times> datetime"
  resolved :: bool
  resolved_at :: "datetime option"

text \<open>\<^verbatim>\<open>@dataclass class SystemHealth\<close>\<close>

record SystemHealth =
  sh_timestamp :: datetime
  overall_status :: string
  active_workers :: nat
  total_tasks_today :: int
  cost_utilization :: rat
  error_rate :: rat
  uptime_hours :: rat
  sh_alerts_count :: nat
  sh_emergency_shutdown :: bool

text \<open>
  The content of the file \<^verbatim>\<open>SYSTEM_SHUTDOWN.json\<close>. The method opens the file for
  writing, which empties it, then computes the health snapshot, then calls
  \<^verbatim>\<open>json.dump\<close> on the report, without \<^verbatim>\<open>default=\<close>. \<^verbatim>\<open>json.dump\<close> writes the
  text piece by piece while it encodes. The first field of the snapshot,
  \<open>timestamp\<close>, is a \<^verbatim>\<open>datetime\<close>, which the encoder refuses with \<^verbatim>\<open>TypeError\<close>: by
  then the entries \<open>shutdown_time\<close>, \<open>reason\<close> and \<open>active_workers\<close> are in the
  file, followed by the opening of \<open>system_health\<close> and the key \<open>timestamp\<close>, where
  the text ends. So the file is either empty, or the head of a report that is cut
  before the first value of the health snapshot; it never holds a snapshot, and it is
  not a JSON document.
\<close>

record shutdown_report_head =
  shutdown_time :: datetime
  reason :: string
  report_active_workers :: nat

datatype shutdown_file = File_empty | File_cut_in_system_health shutdown_report_head

text \<open>
  What the monitor does to the outside, in order: a call of \<^verbatim>\<open>worker.stop()\<close> (by
  the id of the worker), a line appended to \<^verbatim>\<open>alerts.jsonl\<close>, the shutdown file
  written, with the content it is left with.
\<close>

datatype sm_event =
    Worker_stop_called string
  | Alert_saved SystemAlert
  | Shutdown_file_written shutdown_file

text \<open>
  The fields of \<^verbatim>\<open>class SystemMonitor\<close>, among them the cost tracker (the global
  instance), the registered queue and the registered workers, with the log of
  \<open>sm_event\<close>s.
\<close>

record SystemMonitor =
  cost_tracker :: CostTracker
  task_queue :: "TaskQueue option"
  workers :: "(string, MiniWorker) dict"
  sm_start_time :: datetime
  sm_monitoring_active :: bool
  sm_alerts :: "SystemAlert list"
  health_history :: "SystemHealth list"
  emergency_shutdown_active :: bool
  shutdown_reason :: "string option"
  sm_log :: "sm_event list"

text \<open>\<^verbatim>\<open>SystemMonitor.register_worker\<close>: \<^verbatim>\<open>self.workers[worker.worker_id] = worker\<close>.\<close>

definition register_worker :: "MiniWorker \<Rightarrow> SystemMonitor \<Rightarrow> SystemMonitor" where
  "register_worker w sm = sm\<lparr>workers := AList.update (mw_worker_id w) w (workers sm)\<rparr>"

text \<open>The results of a loop of calls, up to the first one that raises.\<close>

fun gather :: "(py_error + 'a) list \<Rightarrow> py_error + 'a list" where
  "gather [] = Inr []"
| "gather (Inl e # rs) = Inl e"
| "gather (Inr v # rs) = (case gather rs of Inl e \<Rightarrow> Inl e | Inr vs \<Rightarrow> Inr (v # vs))"

text \<open>\<^verbatim>\<open>SystemMonitor._calculate_system_health\<close>\<close>

definition calculate_system_health :: "datetime \<Rightarrow> SystemMonitor \<Rightarrow> py_error + SystemHealth" where
  "calculate_system_health now sm =
     (let uptime = fl (total_seconds now (sm_start_time sm) / 3600)
      in case get_daily_summary (cost_tracker sm) of
           Inl e \<Rightarrow> Inl e
         | Inr cost_summary \<Rightarrow>
             (let cost_util = fl (utilization_percent cost_summary / 100);
                  active = length (filter (\<lambda>w. mw_status w = ''active'')
                                     (dict_values (workers sm)))
              in case gather (map (get_status now (cost_tracker sm))
                                (dict_values (workers sm))) of
                   Inl e \<Rightarrow> Inl e
                 | Inr statuses \<Rightarrow>
                     (let total_tasks = sum_list (map ws_tasks_completed statuses);
                          errors = sum_list (map ws_error_count statuses);
                          rate = fl (of_int errors / of_int (max (total_tasks + errors) 1));
                          active_alerts = length (filter (\<lambda>a. \<not> resolved a) (sm_alerts sm));
                          overall =
                            (if emergency_shutdown_active sm then ''emergency''
                             else if 1 < cost_util \<or> fl (2 / 10) < rate then ''critical''
                             else if fl (8 / 10) < cost_util \<or> fl (1 / 10) < rate \<or>
                                     of_nat active
                                       < fmul (of_nat (length (workers sm))) (fl (5 / 10))
                             then ''degraded''
                             else ''healthy'')
                      in Inr \<lparr>sh_timestamp = now, overall_status = overall,
                              active_workers = active, total_tasks_today = total_tasks,
                              cost_utilization = cost_util, error_rate = rate,
                              uptime_hours = uptime, sh_alerts_count = active_alerts,
                              sh_emergency_shutdown = emergency_shutdown_active sm\<rparr>)))"

text \<open>\<^verbatim>\<open>SystemMonitor._create_alert\<close>: the alert is appended and saved.\<close>

definition create_alert ::
  "datetime \<Rightarrow> string \<Rightarrow> string \<Rightarrow> string \<Rightarrow> string \<times> datetime \<Rightarrow> SystemMonitor
     \<Rightarrow> SystemMonitor" where
  "create_alert now sev component msg details sm =
     (let alert = \<lparr>sa_timestamp = now, sa_severity = sev, sa_component = component,
                   sa_message = msg, sa_details = details, resolved = False,
                   resolved_at = None\<rparr>
      in sm\<lparr>sm_alerts := sm_alerts sm @ [alert], sm_log := sm_log sm @ [Alert_saved alert]\<rparr>)"

text \<open>The loop \<^verbatim>\<open>for worker in self.workers.values(): await worker.stop()\<close>.\<close>

definition stop_all_workers :: "SystemMonitor \<Rightarrow> SystemMonitor" where
  "stop_all_workers sm =
     sm\<lparr>workers := map (\<lambda>(i, w). (i, stop w)) (workers sm),
         sm_log := sm_log sm @ map (\<lambda>w. Worker_stop_called (mw_worker_id w))
                                  (dict_values (workers sm))\<rparr>"

text \<open>
  \<^verbatim>\<open>SystemMonitor._trigger_emergency_shutdown\<close>. The result is the exception that
  leaves the method, if any, and the state. A call while a shutdown is active returns
  at once. Otherwise the file is opened; if the health snapshot raises, that exception
  leaves the method and the file stays empty; if not, \<^verbatim>\<open>json.dump\<close> raises
  \<^verbatim>\<open>TypeError\<close> at the timestamp of the snapshot, the file is left cut there, and the
  last statement of the method, the log line of the completed shutdown, is not
  reached.
\<close>

definition trigger_emergency_shutdown ::
  "datetime \<Rightarrow> string \<Rightarrow> SystemMonitor \<Rightarrow> py_error option \<times> SystemMonitor" where
  "trigger_emergency_shutdown now why sm =
     (if emergency_shutdown_active sm then (None, sm)
      else
        (let sm1 = sm\<lparr>emergency_shutdown_active := True, shutdown_reason := Some why\<rparr>;
             sm2 = create_alert now ''emergency'' ''system''
                     (''Emergency shutdown triggered: '' @ why) (why, now) sm1;
             sm3 = stop_all_workers sm2;
             sm4 = sm3\<lparr>task_queue := map_option tq_stop_monitoring (task_queue sm3)\<rparr>;
             sm5 = sm4\<lparr>cost_tracker := ct_stop_monitoring (cost_tracker sm4)\<rparr>
         in case calculate_system_health now sm5 of
              Inl e \<Rightarrow>
                (Some e, sm5\<lparr>sm_log := sm_log sm5 @ [Shutdown_file_written File_empty]\<rparr>)
            | Inr health \<Rightarrow>
                (Some TypeError,
                 sm5\<lparr>sm_log := sm_log sm5 @
                        [Shutdown_file_written
                           (File_cut_in_system_health
                              \<lparr>shutdown_time = now, reason = why,
                               report_active_workers = length (workers sm5)\<rparr>)]\<rparr>)))"

text \<open>
  The dictionary of the registered workers as \<^verbatim>\<open>register_worker\<close> builds it: the
  keys are distinct and every worker is stored under its own id.
\<close>

definition wf_workers :: "(string, MiniWorker) dict \<Rightarrow> bool" where
  "wf_workers ws = (distinct (map fst ws) \<and> list_all (\<lambda>(i, w). mw_worker_id w = i) ws)"

text \<open>The events of the log that are a write of the shutdown file.\<close>

fun is_shutdown_file :: "sm_event \<Rightarrow> bool" where
  "is_shutdown_file (Shutdown_file_written f) = True"
| "is_shutdown_file e = False"

section \<open>Example inputs\<close>

text \<open>
  A pending task of the scraper type as \<^verbatim>\<open>submit_task\<close> creates it, with the given
  id, priority, creation time and dependencies.
\<close>

definition example_task :: "string \<Rightarrow> int \<Rightarrow> datetime \<Rightarrow> string list \<Rightarrow> Task" where
  "example_task i prio created deps =
     \<lparr>tid = i, description = ''example'', task_type = ''scrape_source'', priority = prio,
      parameters = Map.empty, worker_type = ''scraper'', status = PENDING,
      created_at = created, assigned_at = None, started_at = None, completed_at = None,
      assigned_worker = None, result = None, error = None, retry_count = 0,
      max_retries = 3, timeout_seconds = 3600, cost_estimate = fl (1 / 100),
      dependencies = deps\<rparr>"

text \<open>A Redis server with no key, and the tasks of a list added to it in order.\<close>

definition empty_redis :: redis_state where
  "empty_redis = \<lparr>hashes = Map.empty, zsets = (\<lambda>k. [])\<rparr>"

fun redis_add_all :: "Task list \<Rightarrow> redis_state \<Rightarrow> redis_state" where
  "redis_add_all [] r = r"
| "redis_add_all (t # ts) r = redis_add_all ts (snd (redis_add_task t r))"

text \<open>The ids that \<open>n\<close> successive calls of \<^verbatim>\<open>get_next_task(w)\<close> return.\<close>

fun sqlite_claims :: "nat \<Rightarrow> datetime \<Rightarrow> string \<Rightarrow> sqlite_db \<Rightarrow> string option list" where
  "sqlite_claims 0 now w db = []"
| "sqlite_claims (Suc n) now w db =
     (case sqlite_get_next_task now (Some w) db of
        (task, db1) \<Rightarrow> map_option tid task # sqlite_claims n now w db1)"

fun redis_claims :: "nat \<Rightarrow> rat \<Rightarrow> string \<Rightarrow> redis_state \<Rightarrow> string option list" where
  "redis_claims 0 time w r = []"
| "redis_claims (Suc n) time w r =
     (case redis_get_next_task time (Some w) r of
        (task, r1) \<Rightarrow> map_option tid task # redis_claims n time w r1)"

text \<open>
  Task \<open>a\<close> (priority 5, no dependency) and task \<open>b\<close> (priority 10, depending on
  \<open>a\<close>), both pending.
\<close>

definition blocked_queue :: "Task list" where
  "blocked_queue = [example_task ''a'' 5 1 [], example_task ''b'' 10 2 [''a'']]"

text \<open>Four pending tasks of priorities 10, 5, 5 and 1, created in this order.\<close>

definition priority_queue :: "Task list" where
  "priority_queue =
     [example_task ''d4'' 10 1 [], example_task ''a1'' 5 2 [],
      example_task ''b2'' 5 3 [], example_task ''c3'' 1 4 []]"

text \<open>
  The update with which a worker records the failure of task \<open>i\<close> (the \<^verbatim>\<open>except\<close>
  branch of \<^verbatim>\<open>_process_task\<close>), and \<open>n\<close> rounds of such a failure followed by a
  pass of the monitor; \<open>fail_row\<close> is one round on a single row.
\<close>

definition mark_failed :: "datetime \<Rightarrow> string \<Rightarrow> string \<Rightarrow> sqlite_db \<Rightarrow> sqlite_db" where
  "mark_failed now i e db =
     snd (sqlite_update_task i
            [Set_status FAILED, Set_error (Some e), Set_completed_at (Some now)] db)"

fun fail_and_sweep :: "nat \<Rightarrow> datetime \<Rightarrow> string \<Rightarrow> string \<Rightarrow> sqlite_db \<Rightarrow> sqlite_db" where
  "fail_and_sweep 0 now i e db = db"
| "fail_and_sweep (Suc n) now i e db =
     monitor_tasks now (mark_failed now i e (fail_and_sweep n now i e db))"

definition fail_row :: "datetime \<Rightarrow> string \<Rightarrow> string \<Rightarrow> Task \<Rightarrow> Task" where
  "fail_row now i e r =
     retry_row (timeout_row now
       (if tid r = i then r\<lparr>status := FAILED, error := Some e, completed_at := Some now\<rparr>
        else r))"

text \<open>
  Two failed tasks: \<open>f\<close> has not been retried yet, \<open>g\<close> has used its three
  retries.
\<close>

definition failed_queue :: "Task list" where
  "failed_queue =
     [(example_task ''f'' 5 1 [])\<lparr>status := FAILED, assigned_worker := Some ''Scraper-01'',
                                   started_at := Some 50, error := Some ''boom''\<rparr>,
      (example_task ''g'' 5 2 [])\<lparr>status := FAILED, retry_count := 3,
                                   error := Some ''boom''\<rparr>]"

text \<open>
  A Redis server to which the two failed tasks have been added, and one that holds a
  single failed task with its completion time, as the worker records it.
\<close>

definition failed_redis :: redis_state where
  "failed_redis = redis_add_all failed_queue empty_redis"

definition finished_redis :: redis_state where
  "finished_redis =
     redis_add_all
       [(example_task ''c'' 5 1 [])\<lparr>status := FAILED, error := Some ''boom'',
                                     completed_at := Some 200\<rparr>] empty_redis"

text \<open>
  An active scraper worker, an executor that returns normally without touching the
  queue, an executor that raises an exception with the given text, a cost tracker with
  the default limit and nothing recorded, and a queue whose single task has been
  claimed.
\<close>

definition example_worker :: MiniWorker where
  "example_worker =
     \<lparr>mw_worker_id = ''Scraper-01'', mw_worker_type = SCRAPER, mw_status = ''active'',
      current_task = None, start_time = 0, last_activity = 0, tasks_completed = 0,
      error_count = 0, max_daily_cost = 5\<rparr>"

definition returning_executor :: executor where
  "returning_executor i db = (Inr (), db)"

definition raising_executor :: "string \<Rightarrow> executor" where
  "raising_executor e i db = (Inl e, db)"

definition example_tracker :: CostTracker where
  "example_tracker =
     \<lparr>daily_limit_gbp = 20, daily_costs = [], worker_costs = [], cost_events = [],
      alerts = [], monitoring_active = False, emergency_shutdown = False, files = []\<rparr>"

definition assigned_queue :: "Task list" where
  "assigned_queue = [(example_task ''t1'' 5 1 [])\<lparr>status := ASSIGNED, assigned_at := Some 90\<rparr>]"

text \<open>
  A monitor with the default cost tracker, a queue and two registered workers, a
  scraper and an audio worker.
\<close>

definition example_monitor :: SystemMonitor where
  "example_monitor =
     register_worker (example_worker\<lparr>mw_worker_id := ''Audio-01'', mw_worker_type := AUDIO\<rparr>)
       (register_worker example_worker
          \<lparr>cost_tracker = example_tracker,
           task_queue = Some \<lparr>backend = SQLite_backend [], running = True\<rparr>,
           workers = [], sm_start_time = 0, sm_monitoring_active = True, sm_alerts = [],
           health_history = [], emergency_shutdown_active = False, shutdown_reason = None,
           sm_log = []\<rparr>)"

text \<open>
  A tracker with the default limit of 20 that has 18 recorded for one service and 4.25
  for the worker \<open>Scraper-01\<close>, and an event of that worker that costs 0.5.
\<close>

definition spent_tracker :: CostTracker where
  "spent_tracker =
     example_tracker\<lparr>daily_costs := [(''anthropic'', 18)],
                     worker_costs := [(''Scraper-01'', 17 / 4), (''Audio-01'', 55 / 4)]\<rparr>"

definition example_event :: CostEvent where
  "example_event =
     \<lparr>ev_timestamp = 100, service = ''anthropic'', operation = ''api_call'', units = 1000,
      cost_gbp = 1 / 2, worker_id = ''Scraper-01'', project_id = None,
      metadata = Map.empty\<rparr>"

text \<open>The example event with the cost 0.1, and with the cost 0.25.\<close>

definition tenth_event :: CostEvent where
  "tenth_event = example_event\<lparr>cost_gbp := fl (1 / 10)\<rparr>"

definition quarter_event :: CostEvent where
  "quarter_event = example_event\<lparr>cost_gbp := 1 / 4\<rparr>"

section \<open>Properties\<close>

subsection \<open>Rounding to a float is monotone\<close>

lemma pow2_powi: "pow2 e = 2 powi e"
  by (simp add: pow2_def power_int_def power_one_over [symmetric] inverse_eq_divide)

lemma pow2_pos [simp]: "0 < pow2 e"
  by (simp add: pow2_powi)

lemma pow2_nonzero [simp]: "pow2 e \<noteq> 0"
  by (simp add: pow2_def)

lemma pow2_add: "pow2 (a + b) = pow2 a * pow2 b"
  by (simp add: pow2_powi power_int_add)

lemma pow2_mono: "a \<le> b \<Longrightarrow> pow2 a \<le> pow2 b"
  by (simp add: pow2_powi power_int_increasing)

lemma pow2_less_iff: "pow2 a < pow2 b \<longleftrightarrow> a < b"
proof
  assume "pow2 a < pow2 b"
  show "a < b"
  proof (rule ccontr)
    assume "\<not> a < b"
    then have "pow2 b \<le> pow2 a" by (simp add: pow2_mono)
    with \<open>pow2 a < pow2 b\<close> show False by simp
  qed
next
  assume "a < b"
  then show "pow2 a < pow2 b"
    by (simp add: pow2_powi power_int_strict_increasing)
qed

lemma pow2_nat: "0 \<le> e \<Longrightarrow> pow2 e = 2 ^ nat e"
  by (simp add: pow2_def)

lemma bitlen_pow2_bounds:
  assumes "0 < p"
  shows "pow2 (bitlen p - 1) \<le> of_int p \<and> (of_int p :: rat) < pow2 (bitlen p)"
proof -
  from bitlen_bounds [OF assms]
  have b: "2 ^ nat (bitlen p - 1) \<le> p" "p < 2 ^ nat (bitlen p)" by simp_all
  have ge: "1 \<le> bitlen p"
    using assms bitlen_eq_zero_iff [of p] bitlen_nonneg [of p] by linarith
  have "(of_int (2 ^ nat (bitlen p - 1)) :: rat) \<le> of_int p"
    using b(1) by (simp only: of_int_le_iff)
  moreover have "(of_int p :: rat) < of_int (2 ^ nat (bitlen p))"
    using b(2) by (simp only: of_int_less_iff)
  ultimately show ?thesis
    using ge by (simp add: pow2_nat)
qed

lemma ilog2_bounds:
  assumes "0 < x"
  shows "pow2 (ilog2 x) \<le> x \<and> x < pow2 (ilog2 x + 1)"
proof -
  obtain p q where pq: "quotient_of x = (p, q)" by (cases "quotient_of x")
  then have q: "0 < q" and x: "x = of_int p / of_int q"
    by (auto dest: quotient_of_denom_pos quotient_of_div)
  have p: "0 < p"
    using assms q x by (simp add: zero_less_divide_iff)
  let ?d = "bitlen p - bitlen q"
  note bp = bitlen_pow2_bounds [OF p] and bq = bitlen_pow2_bounds [OF q]
  have qpos: "(0::rat) < of_int q" using q by simp
  have up: "x < pow2 (?d + 1)"
  proof -
    have "of_int p < pow2 (bitlen p)" using bp by simp
    also have "\<dots> = pow2 (?d + 1) * pow2 (bitlen q - 1)"
      by (simp add: pow2_add [symmetric])
    also have "\<dots> \<le> pow2 (?d + 1) * of_int q"
      using bq by (simp add: mult_left_mono less_imp_le)
    finally show ?thesis
      using qpos by (simp add: x pos_divide_less_eq)
  qed
  have lo: "pow2 (?d - 1) < x"
  proof -
    have "pow2 (?d - 1) * of_int q < pow2 (?d - 1) * pow2 (bitlen q)"
      using bq by (simp add: mult_strict_left_mono)
    also have "\<dots> = pow2 (bitlen p - 1)"
      by (simp add: pow2_add [symmetric])
    also have "\<dots> \<le> of_int p" using bp by simp
    finally show ?thesis
      using qpos by (simp add: x pos_less_divide_eq)
  qed
  show ?thesis
  proof (cases "pow2 ?d \<le> x")
    case True
    then show ?thesis using up by (simp add: ilog2_def pq)
  next
    case False
    then show ?thesis using lo by (simp add: ilog2_def pq)
  qed
qed

lemma ilog2_mono:
  assumes "0 < x" and "x \<le> y"
  shows "ilog2 x \<le> ilog2 y"
proof -
  have "pow2 (ilog2 x) \<le> x" using ilog2_bounds [OF assms(1)] by simp
  also have "x \<le> y" by fact
  also have "y < pow2 (ilog2 y + 1)" using ilog2_bounds [of y] assms by simp
  finally show ?thesis by (simp add: pow2_less_iff)
qed

lemma round_half_even_of_int [simp]: "round_half_even (of_int n) = n"
  by (simp add: round_half_even_def)

lemma round_half_even_mono:
  assumes "a \<le> b"
  shows "round_half_even a \<le> round_half_even b"
proof -
  have fa: "of_int \<lfloor>a\<rfloor> \<le> a" "a < of_int \<lfloor>a\<rfloor> + 1"
    and fb: "of_int \<lfloor>b\<rfloor> \<le> b" "b < of_int \<lfloor>b\<rfloor> + 1"
    by linarith+
  have le: "\<lfloor>a\<rfloor> \<le> \<lfloor>b\<rfloor>" using assms by (rule floor_mono)
  show ?thesis
  proof (cases "\<lfloor>a\<rfloor> = \<lfloor>b\<rfloor>")
    case True
    then show ?thesis
      using assms by (auto simp: round_half_even_def Let_def)
  next
    case False
    with le have "\<lfloor>a\<rfloor> + 1 \<le> \<lfloor>b\<rfloor>" by simp
    moreover have "round_half_even a \<le> \<lfloor>a\<rfloor> + 1"
      by (simp add: round_half_even_def Let_def)
    moreover have "\<lfloor>b\<rfloor> \<le> round_half_even b"
      by (simp add: round_half_even_def Let_def)
    ultimately show ?thesis by linarith
  qed
qed

lemma pow2_53: "pow2 53 * pow2 (e - 52) = pow2 (e + 1)"
proof -
  have "e + 1 = 53 + (e - 52)" by simp
  then show ?thesis by (simp only: pow2_add)
qed

lemma pow2_52: "pow2 52 * pow2 (e - 52) = pow2 e"
proof -
  have "e = 52 + (e - 52)" by simp
  then have "pow2 e = pow2 (52 + (e - 52))" by simp
  then show ?thesis by (simp only: pow2_add)
qed

lemma pow2_53_int: "pow2 53 = of_int (2 ^ 53)" and pow2_52_int: "pow2 52 = of_int (2 ^ 52)"
  by (simp_all add: pow2_def)

lemma fl_ulp: "x \<noteq> 0 \<Longrightarrow> fl x = of_int (round_half_even (x / ulp x)) * ulp x"
  by (simp add: fl_def ulp_def Let_def)

lemma ulp_pos [simp]: "0 < ulp x"
  by (simp add: ulp_def)

lemma fl_nonneg: "0 \<le> x \<Longrightarrow> 0 \<le> fl x"
proof (cases "x = 0")
  case True
  then show ?thesis by (simp add: fl_def)
next
  case False
  assume "0 \<le> x"
  then have "0 \<le> x / ulp x" by (simp add: zero_le_divide_iff less_imp_le)
  then have "round_half_even 0 \<le> round_half_even (x / ulp x)"
    by (rule round_half_even_mono)
  then have "0 \<le> round_half_even (x / ulp x)"
    using round_half_even_of_int [of 0] by simp
  then have "(0::rat) \<le> of_int (round_half_even (x / ulp x))"
    by (simp only: of_int_0_le_iff)
  then have "0 \<le> of_int (round_half_even (x / ulp x)) * ulp x"
    by (intro mult_nonneg_nonneg) (simp_all add: less_imp_le)
  then show ?thesis using fl_ulp [OF False] by simp
qed

lemma fl_mono_pos:
  assumes "0 < x" and "x \<le> y"
  shows "fl x \<le> fl y"
proof -
  have y: "0 < y" using assms by simp
  let ?ex = "max (ilog2 x) (- 1022)" and ?ey = "max (ilog2 y) (- 1022)"
  have ux: "ulp x = pow2 (?ex - 52)" and uy: "ulp y = pow2 (?ey - 52)"
    using assms y by (simp_all add: ulp_def)
  have e: "?ex \<le> ?ey" using ilog2_mono [OF assms] by simp
  show ?thesis
  proof (cases "?ex = ?ey")
    case True
    then have u: "ulp x = ulp y" by (simp add: ux uy)
    have "x / ulp y \<le> y / ulp y"
      using assms(2) by (intro divide_right_mono) (simp_all add: less_imp_le)
    then have "round_half_even (x / ulp y) \<le> round_half_even (y / ulp y)"
      by (rule round_half_even_mono)
    then have "(of_int (round_half_even (x / ulp y)) :: rat)
                 \<le> of_int (round_half_even (y / ulp y))"
      by (simp only: of_int_le_iff)
    then show ?thesis
      using assms y by (simp add: fl_ulp u mult_right_mono)
  next
    case False
    with e have lt: "?ex < ?ey" unfolding order_less_le by blast
    then have ey: "?ey = ilog2 y" by (simp add: max_def split: if_splits)
    have xb: "x < pow2 (?ex + 1)"
    proof -
      have "x < pow2 (ilog2 x + 1)" using ilog2_bounds [OF assms(1)] by simp
      also have "\<dots> \<le> pow2 (?ex + 1)" by (simp add: pow2_mono)
      finally show ?thesis .
    qed
    have "x / ulp x \<le> pow2 (?ex + 1) / ulp x"
      using xb by (intro divide_right_mono) (simp_all add: less_imp_le)
    also have "pow2 (?ex + 1) / ulp x = pow2 53"
    proof -
      have "pow2 (?ex + 1) / ulp x = pow2 53 * pow2 (?ex - 52) / pow2 (?ex - 52)"
        by (simp only: ux pow2_53)
      also have "\<dots> = pow2 53"
        by simp
      finally show ?thesis .
    qed
    also have "pow2 53 = of_int (2 ^ 53)" by (rule pow2_53_int)
    finally have "round_half_even (x / ulp x) \<le> round_half_even (of_int (2 ^ 53))"
      by (rule round_half_even_mono)
    then have "round_half_even (x / ulp x) \<le> 2 ^ 53"
      by (simp only: round_half_even_of_int)
    then have "(of_int (round_half_even (x / ulp x)) :: rat) \<le> of_int (2 ^ 53)"
      by (simp only: of_int_le_iff)
    then have "fl x \<le> of_int (2 ^ 53) * ulp x"
      using assms by (simp add: fl_ulp mult_right_mono)
    also have "of_int (2 ^ 53) * ulp x = pow2 (?ex + 1)"
      by (simp only: ux pow2_53_int [symmetric] pow2_53)
    also have "\<dots> \<le> pow2 ?ey"
    proof (rule pow2_mono)
      show "?ex + 1 \<le> ?ey" using lt by linarith
    qed
    finally have A: "fl x \<le> pow2 ?ey" .
    have "pow2 ?ey \<le> y" using ilog2_bounds [OF y] ey by simp
    then have "pow2 ?ey / ulp y \<le> y / ulp y"
      by (intro divide_right_mono) (simp_all add: less_imp_le)
    moreover have "pow2 ?ey / ulp y = of_int (2 ^ 52)"
    proof -
      have "pow2 ?ey / ulp y = pow2 52 * pow2 (?ey - 52) / pow2 (?ey - 52)"
        by (simp only: uy pow2_52)
      also have "\<dots> = pow2 52"
        by simp
      finally show ?thesis by (simp only: pow2_52_int)
    qed
    ultimately have "round_half_even (of_int (2 ^ 52)) \<le> round_half_even (y / ulp y)"
      by (simp only: round_half_even_mono)
    then have "2 ^ 52 \<le> round_half_even (y / ulp y)"
      by (simp only: round_half_even_of_int)
    then have "(of_int (2 ^ 52) :: rat) \<le> of_int (round_half_even (y / ulp y))"
      by (simp only: of_int_le_iff)
    then have "of_int (2 ^ 52) * ulp y \<le> fl y"
      using y by (simp add: fl_ulp mult_right_mono)
    moreover have "of_int (2 ^ 52) * ulp y = pow2 ?ey"
      by (simp only: uy pow2_52_int [symmetric] pow2_52)
    ultimately have "pow2 ?ey \<le> fl y" by simp
    with A show ?thesis by simp
  qed
qed

lemma fl_mono_nonneg: "0 \<le> x \<Longrightarrow> x \<le> y \<Longrightarrow> fl x \<le> fl y"
  using fl_mono_pos [of x y] fl_nonneg [of y] by (cases "x = 0") (auto simp: fl_def)

subsection \<open>Rounding moves a number by half a spacing at most\<close>

lemma round_half_even_near: "\<bar>of_int (round_half_even q) - q\<bar> \<le> 1 / 2"
proof -
  have f: "of_int \<lfloor>q\<rfloor> \<le> q" "q < of_int \<lfloor>q\<rfloor> + 1" by linarith+
  show ?thesis
    unfolding round_half_even_def Let_def using f by (simp add: abs_le_iff)
qed

lemma fl_near: "x \<noteq> 0 \<Longrightarrow> \<bar>fl x - x\<bar> \<le> ulp x / 2"
proof -
  assume nz: "x \<noteq> 0"
  have u: "0 < ulp x" by (simp add: ulp_def)
  have nzu: "ulp x \<noteq> 0" using u by linarith
  have "x = (x / ulp x) * ulp x" using nzu by simp
  then have "fl x - x = of_int (round_half_even (x / ulp x)) * ulp x - (x / ulp x) * ulp x"
    by (simp only: fl_ulp [OF nz])
  then have "fl x - x = (of_int (round_half_even (x / ulp x)) - x / ulp x) * ulp x"
    by (simp only: left_diff_distrib)
  then have "\<bar>fl x - x\<bar> = \<bar>of_int (round_half_even (x / ulp x)) - x / ulp x\<bar> * ulp x"
    using u by (simp only: abs_mult abs_of_pos)
  also have "\<dots> \<le> (1 / 2) * ulp x"
    by (rule mult_right_mono [OF round_half_even_near less_imp_le [OF u]])
  finally show ?thesis by simp
qed

subsection \<open>Integers of 64 bits\<close>

text \<open>
  An integer of 64 bits has a decimal text within the limit of the conversion, and as
  a score it is within the range of the floats.
\<close>

lemma int64_str_ok: "int64 n \<Longrightarrow> int_str_ok n"
proof -
  assume a: "int64 n"
  have "\<bar>n\<bar> \<le> 2 ^ 63" using a unfolding int64_def by linarith
  also have "(2::int) ^ 63 < 10 ^ 63" by (rule power_strict_mono) simp_all
  also have "(10::int) ^ 63 \<le> 10 ^ 4300" by (rule power_increasing) simp_all
  finally show ?thesis unfolding int_str_ok_def .
qed

lemma int64_no_overflow: "int64 n \<Longrightarrow> \<not> float_overflow (of_int n)"
proof (cases "n = 0")
  case True
  then show ?thesis by (simp add: float_overflow_def fl_def less_imp_le not_le)
next
  case False
  assume a: "int64 n"
  let ?x = "of_int n :: rat"
  have nz: "?x \<noteq> 0" using False by simp
  have b: "\<bar>?x\<bar> \<le> 2 ^ 63"
  proof -
    have "\<bar>n\<bar> \<le> 2 ^ 63" using a unfolding int64_def by linarith
    then have "of_int \<bar>n\<bar> \<le> (of_int (2 ^ 63) :: rat)" by (simp only: of_int_le_iff)
    then show ?thesis by simp
  qed
  have u: "ulp ?x \<le> pow2 11"
  proof -
    have pos: "0 < \<bar>?x\<bar>" using nz by simp
    from ilog2_bounds [OF pos] have "pow2 (ilog2 \<bar>?x\<bar>) \<le> \<bar>?x\<bar>" by simp
    also have "\<dots> < pow2 64" using b by (simp add: pow2_def)
    finally have "ilog2 \<bar>?x\<bar> < 64" by (simp add: pow2_less_iff)
    then have "max (ilog2 \<bar>?x\<bar>) (- 1022) - 52 \<le> 11" by simp
    then show ?thesis unfolding ulp_def by (rule pow2_mono)
  qed
  have "\<bar>fl ?x\<bar> \<le> \<bar>?x\<bar> + ulp ?x / 2"
    using fl_near [OF nz] by linarith
  also have "\<dots> \<le> 2 ^ 63 + pow2 11 / 2" using b u by linarith
  also have "\<dots> < pow2 1024" by (simp add: pow2_def)
  finally show ?thesis unfolding float_overflow_def by simp
qed

lemma int64_numeral [simp]: "int64 0" "int64 1" "int64 3" "int64 5" "int64 10" "int64 3600"
  by (simp_all add: int64_def)

lemma json_dumps_no_parameters [simp]: "json_dumps_parameters Map.empty = None"
  by (simp add: json_dumps_parameters_def)

subsection \<open>Float constants\<close>

lemma fl_tenth: "fl (1 / 10) = 3602879701896397 / 36028797018963968"
  by code_simp

lemma fl_half: "fl (1 / 2) = 1 / 2"
  by code_simp

lemma fl_priorities: "fl 1 = 1" "fl 5 = 5" "fl 10 = 10"
  by code_simp+

subsection \<open>Lookup by id\<close>

lemma find_tid_Some:
  "i \<in> set (map tid db) \<Longrightarrow> \<exists>t. find (\<lambda>t. tid t = i) db = Some t \<and> tid t = i \<and> t \<in> set db"
  by (induction db) auto

lemma find_append_new:
  "find P xs = None \<Longrightarrow> find P (xs @ ys) = find P ys"
  by (induction xs) (auto split: if_splits)

subsection \<open>Adding to the Redis backend\<close>

text \<open>
  \<^verbatim>\<open>RedisQueueBackend.add_task\<close> raises nothing when the integers of the task have 64
  bits and \<^verbatim>\<open>json.dumps\<close> writes the parameters.
\<close>

lemma redis_add_task_ok:
  assumes "int64 (priority t)" and "int64 (retry_count t)" and "int64 (max_retries t)"
    and "int64 (timeout_seconds t)" and "json_dumps_parameters (parameters t) = None"
  shows "redis_add_task t r =
           (Inr (tid t),
            zadd (pending_key (worker_type t)) (tid t) (fl (of_int (priority t)))
              (r\<lparr>hashes := (hashes r)(tid t \<mapsto>
                    t\<lparr>assigned_worker := (case assigned_worker t of None \<Rightarrow> Some ''None''
                                            | Some s \<Rightarrow> Some s),
                      result := (case result t of None \<Rightarrow> Some ''None'' | Some s \<Rightarrow> Some s),
                      error := (case error t of None \<Rightarrow> Some ''None'' | Some s \<Rightarrow> Some s)\<rparr>)\<rparr>))"
  using assms
  by (simp add: redis_add_task_def Let_def int64_str_ok int64_no_overflow)

lemma finished_redis_task:
  "redis_get_task ''c'' finished_redis
     = Some ((example_task ''c'' 5 1 [])\<lparr>status := FAILED, error := Some ''boom'',
               completed_at := Some 200, assigned_worker := Some ''None'',
               result := Some ''None''\<rparr>)"
  by (simp add: finished_redis_def redis_add_task_ok example_task_def redis_get_task_def
      zadd_def empty_redis_def)

subsection \<open>Progress reported by the status query\<close>

lemma calculate_progress_cases:
  "calculate_progress t =
     (case status t of PENDING \<Rightarrow> 0 | ASSIGNED \<Rightarrow> fl (1 / 10) | PROCESSING \<Rightarrow> fl (5 / 10)
      | COMPLETED \<Rightarrow> 1 | FAILED \<Rightarrow> 1 | CANCELLED \<Rightarrow> 0)"
  by (cases "status t") (simp_all add: calculate_progress_def)

lemma calculate_progress_range: "0 \<le> calculate_progress t \<and> calculate_progress t \<le> 1"
  by (cases "status t") (simp_all add: calculate_progress_cases fl_tenth fl_half)

text \<open>
  C9, as stated, fails: the status query of a cancelled task reports the progress 0.0
  (the last branch of \<^verbatim>\<open>_calculate_progress\<close>), not 1.0.
\<close>

theorem C9_cancelled_counterexample:
  "map_option (\<lambda>info. (info_status info, info_progress info))
     (get_task_status ''c'' [(example_task ''c'' 5 1 [])\<lparr>status := CANCELLED\<rparr>])
   = Some (CANCELLED, 0)"
  by (simp add: get_task_status_def sqlite_get_task_def example_task_def calculate_progress_def)

text \<open>
  C9, amended: when \<^verbatim>\<open>get_task\<close> finds a task for the id, on the SQLite backend, or
  on the Redis backend when the completion time of the task is set,
  \<^verbatim>\<open>get_task_status\<close> returns a record with the id and the status of that task,
  whose progress depends on the status only: 0.0 for pending, 0.1 for assigned, 0.5
  for processing, 1.0 for completed and for failed, 0.0 for cancelled; the progress
  lies between 0 and 1.
\<close>

theorem C9_progress_of_status:
  assumes "tq_get_task i b = Some task"
    and "(\<exists>db. b = SQLite_backend db) \<or> completed_at task \<noteq> None"
  shows "\<exists>info. tq_get_task_status i b = Inr (Some info) \<and>
           info_id info = tid task \<and> info_status info = status task \<and>
           info_progress info =
             (case status task of
                PENDING \<Rightarrow> 0 | ASSIGNED \<Rightarrow> fl (1 / 10) | PROCESSING \<Rightarrow> fl (5 / 10)
              | COMPLETED \<Rightarrow> 1 | FAILED \<Rightarrow> 1 | CANCELLED \<Rightarrow> 0) \<and>
           0 \<le> info_progress info \<and> info_progress info \<le> 1"
proof (cases b)
  case (SQLite_backend db)
  then show ?thesis
    using assms(1) calculate_progress_range [of task]
    by (simp add: tq_get_task_def tq_get_task_status_def get_task_status_def
        calculate_progress_cases)
next
  case (Redis_backend r)
  with assms(2) obtain c where "completed_at task = Some c" by auto
  then show ?thesis
    using Redis_backend assms(1) calculate_progress_range [of task]
    by (simp add: tq_get_task_def tq_get_task_status_def calculate_progress_cases)
qed

theorem C9_progress_of_status_witness:
  "(\<exists>info. tq_get_task_status ''c''
             (SQLite_backend [(example_task ''c'' 5 1 [])\<lparr>status := PROCESSING\<rparr>])
           = Inr (Some info) \<and>
          info_id info = ''c'' \<and> info_status info = PROCESSING \<and> info_progress info = 1 / 2) \<and>
   (\<exists>info. tq_get_task_status ''c'' (Redis_backend finished_redis) = Inr (Some info) \<and>
          info_id info = ''c'' \<and> info_status info = FAILED \<and> info_progress info = 1)"
proof -
  have s: "tq_get_task ''c'' (SQLite_backend [(example_task ''c'' 5 1 [])\<lparr>status := PROCESSING\<rparr>])
             = Some ((example_task ''c'' 5 1 [])\<lparr>status := PROCESSING\<rparr>)"
    by (simp add: tq_get_task_def sqlite_get_task_def example_task_def)
  have r: "tq_get_task ''c'' (Redis_backend finished_redis)
             = Some ((example_task ''c'' 5 1 [])\<lparr>status := FAILED, error := Some ''boom'',
                       completed_at := Some 200, assigned_worker := Some ''None'',
                       result := Some ''None''\<rparr>)"
    by (simp add: tq_get_task_def finished_redis_task)
  show ?thesis
    using C9_progress_of_status [OF s] C9_progress_of_status [OF r]
    by (simp add: example_task_def fl_half) blast
qed

text \<open>
  On the Redis backend the query of a task whose completion time is not set raises
  \<^verbatim>\<open>AttributeError\<close>.
\<close>

lemma redis_status_of_unfinished_task:
  "redis_get_task i r = Some task \<Longrightarrow> completed_at task = None
     \<Longrightarrow> tq_get_task_status i (Redis_backend r) = Inl AttributeError"
  by (simp add: tq_get_task_status_def)

subsection \<open>Submitting a task\<close>




subsection \<open>Claiming the next task\<close>

lemmas queue_eval =
  sqlite_get_next_task_def example_task_def pending_rows_def precedes_def dep_completed_def
  redis_get_next_task_def redis_add_task_ok fl_priorities redis_get_task_def empty_redis_def
  zadd_def zrem_def zrevrange_0_0_def pending_key_def processing_key_def zless_def Let_def
  blocked_queue_def priority_queue_def

lemma precedes_asym: "precedes a b \<Longrightarrow> \<not> precedes b a"
  by (auto simp: precedes_def)

lemma order_limit_1_nonempty: "xs \<noteq> [] \<Longrightarrow> order_limit_1 xs \<noteq> None"
  by (cases xs) (auto split: option.splits if_splits)

text \<open>The row that \<^verbatim>\<open>ORDER BY ... LIMIT 1\<close> yields is one that no other row precedes.\<close>

lemma order_limit_1_best:
  "order_limit_1 xs = Some b \<Longrightarrow> b \<in> set xs \<and> (\<forall>t\<in>set xs. \<not> precedes t b)"
proof (induction xs arbitrary: b)
  case Nil
  then show ?case by simp
next
  case (Cons t ts)
  show ?case
  proof (cases "order_limit_1 ts")
    case None
    then have "ts = []" by (cases ts) (auto split: option.splits if_splits)
    with Cons.prems None show ?thesis by (simp add: precedes_def)
  next
    case (Some b0)
    with Cons.IH have ih: "b0 \<in> set ts" "\<forall>x\<in>set ts. \<not> precedes x b0" by auto
    show ?thesis
    proof (cases "precedes b0 t")
      case True
      with Some Cons.prems have "b = b0" by simp
      with ih True show ?thesis by (auto dest: precedes_asym)
    next
      case False
      with Some Cons.prems have "b = t" by simp
      moreover have "\<forall>x\<in>set ts. \<not> precedes x t"
        using ih False by (auto simp: precedes_def)
      ultimately show ?thesis by (simp add: precedes_def)
    qed
  qed
qed

text \<open>
  What holds of the SQLite backend: the task it returns is a pending row of the
  requested worker type whose dependencies are all completed and that no other such
  pending row precedes in the order of the query; the row is then marked as assigned,
  so the next call cannot return it again.
\<close>

lemma sqlite_returns_best_ready:
  assumes "sqlite_get_next_task now wt db = (Some row, db')"
  shows "row \<in> set (pending_rows wt db) \<and> status row = PENDING \<and>
         list_all (dep_completed db) (dependencies row) \<and>
         (\<forall>t\<in>set (pending_rows wt db). \<not> precedes t row)"
proof -
  from assms have o: "order_limit_1 (pending_rows wt db) = Some row"
    and d: "list_all (dep_completed db) (dependencies row)"
    by (auto simp: sqlite_get_next_task_def split: option.splits if_splits)
  from order_limit_1_best [OF o] have b: "row \<in> set (pending_rows wt db)"
    "\<forall>t\<in>set (pending_rows wt db). \<not> precedes t row" by simp_all
  from b(1) have "status row = PENDING" by (simp add: pending_rows_def)
  with b d show ?thesis by simp
qed

lemma sqlite_marks_assigned:
  assumes "sqlite_get_next_task now wt db = (Some row, db')"
  shows "\<forall>t\<in>set db'. tid t = tid row \<longrightarrow> status t = ASSIGNED \<and> assigned_at t = Some now"
  using assms
  by (auto simp: sqlite_get_next_task_def split: option.splits if_splits)

lemma sqlite_no_double_claim:
  assumes "sqlite_get_next_task now1 wt1 db = (Some row1, db1)"
    and "sqlite_get_next_task now2 wt2 db1 = (Some row2, db2)"
  shows "tid row1 \<noteq> tid row2"
proof
  assume eq: "tid row1 = tid row2"
  from sqlite_returns_best_ready [OF assms(2)]
  have "row2 \<in> set db1" "status row2 = PENDING" by (simp_all add: pending_rows_def)
  with sqlite_marks_assigned [OF assms(1)] eq show False by auto
qed

text \<open>
  The method of the Redis backend run command by command by one caller alone is the
  method as a whole.
\<close>

lemma claim_steps_sequential:
  assumes "w \<noteq> []"
  shows "(case claim_step time w r At_zrevrange of (r1, p1) \<Rightarrow>
          case claim_step time w r1 p1 of (r2, p2) \<Rightarrow>
          case claim_step time w r2 p2 of (r3, p3) \<Rightarrow>
          claim_step time w r3 p3)
         = (snd (redis_get_next_task time (Some w) r),
            Returned (fst (redis_get_next_task time (Some w) r)))"
  using assms
  by (cases "zrevrange_0_0 (pending_key w) r")
     (simp_all add: redis_get_next_task_def Let_def zadd_def zrem_def)

text \<open>
  C1 (the code does not do what the claim says). The queue holds the pending tasks
  \<open>a\<close> (priority 5, ready) and \<open>b\<close> (priority 10, waiting for \<open>a\<close>). The SQLite
  backend returns no task, where the claim wants \<open>a\<close>: it reads the single row \<open>b\<close>
  and returns \<^verbatim>\<open>None\<close> when a dependency of that row is not completed. The Redis
  backend returns \<open>b\<close>, the task with the incomplete dependency.
\<close>

theorem C1_blocked_head_of_line:
  "map tid (pending_rows (Some ''scraper'') blocked_queue) = [''a'', ''b''] \<and>
   fst (sqlite_get_next_task 100 (Some ''scraper'') blocked_queue) = None \<and>
   map_option tid (fst (redis_get_next_task 100 (Some ''scraper'')
                          (redis_add_all blocked_queue empty_redis))) = Some ''b''"
  by (simp add: queue_eval)

text \<open>
  C2 (the code does not do what the claim says). Two processes call
  \<^verbatim>\<open>get_next_task('scraper')\<close> of the Redis backend on a server that holds the single
  pending task \<open>t1\<close>; both run \<^verbatim>\<open>ZREVRANGE\<close> before either runs \<^verbatim>\<open>ZREM\<close>. Both
  calls return the task \<open>t1\<close>. Moreover a call on this backend leaves the status of
  the task it returns at \<^verbatim>\<open>PENDING\<close>.
\<close>

theorem C2_redis_double_claim:
  "(case run_schedule 100 ''scraper'' [False, True, False, False, False, True, True, True]
          (redis_add_all [example_task ''t1'' 5 1 []] empty_redis, At_zrevrange, At_zrevrange) of
      (r, Returned (Some x), Returned (Some y)) \<Rightarrow> tid x = ''t1'' \<and> tid y = ''t1''
    | _ \<Rightarrow> False) \<and>
   map_option status
     (redis_get_task ''t1''
        (snd (redis_get_next_task 100 (Some ''scraper'')
                (redis_add_all [example_task ''t1'' 5 1 []] empty_redis)))) = Some PENDING"
  by (simp add: queue_eval)

text \<open>
  C8 (the code does not do what the claim says). Four pending tasks without
  dependencies, of priorities 10, 5, 5 and 1, are created in the order \<open>d4\<close>, \<open>a1\<close>,
  \<open>b2\<close>, \<open>c3\<close>. Four calls on the SQLite backend return them in this order. Four
  calls on the Redis backend return \<open>b2\<close> before \<open>a1\<close>: the sorted set is scored by
  the priority alone, and members of equal score come back by their ids.
\<close>

theorem C8_redis_ties_by_id:
  "sqlite_claims 4 100 ''scraper'' priority_queue
     = [Some ''d4'', Some ''a1'', Some ''b2'', Some ''c3''] \<and>
   redis_claims 4 100 ''scraper'' (redis_add_all priority_queue empty_redis)
     = [Some ''d4'', Some ''b2'', Some ''a1'', Some ''c3'']"
  by (simp add: queue_eval numeral_eq_Suc)

subsection \<open>The monitor sweep, row by row\<close>

lemma tid_timeout_row [simp]: "tid (timeout_row now r) = tid r"
  by (simp add: timeout_row_def split: option.splits)

lemma tid_retry_row [simp]: "tid (retry_row r) = tid r"
  by (simp add: retry_row_def)

lemma find_tid_in_sublist:
  assumes "distinct (map tid xs)" and "r \<in> set xs" and "set ys \<subseteq> set xs"
  shows "find (\<lambda>t. tid t = tid r) ys = (if r \<in> set ys then Some r else None)"
  using assms(3)
proof (induction ys)
  case Nil
  then show ?case by simp
next
  case (Cons y ys)
  have "tid y = tid r \<longleftrightarrow> y = r"
    using assms(1,2) Cons.prems by (auto simp: distinct_map inj_on_def)
  with Cons show ?case by auto
qed

lemma find_tid_map:
  assumes "distinct (map tid db)" and "t \<in> set db" and "\<And>r. tid (f r) = tid r"
  shows "find (\<lambda>r. tid r = tid t) (map f db) = Some (f t)"
  using assms(1,2)
proof (induction db)
  case Nil
  then show ?case by simp
next
  case (Cons a db)
  then show ?case using assms(3) by (auto simp: image_iff)
qed

lemma list_tasks_set:
  "set (sqlite_list_tasks (Some s) None db) = {t \<in> set db. status t = s}"
  by (auto simp: sqlite_list_tasks_def)

lemma list_tasks_distinct:
  "wf_db db \<Longrightarrow> distinct (map tid (sqlite_list_tasks st wt db))"
  by (auto simp: wf_db_def sqlite_list_tasks_def distinct_map intro: inj_on_subset)

lemma update_task_rowwise:
  "snd (sqlite_update_task i ups db) =
     map (\<lambda>t. if tid t = i then fold apply_update (filter is_column ups) t else t) db"
  by (simp add: sqlite_update_task_def Let_def cong: if_cong)

lemma retry_failed_rowwise:
  "distinct (map tid l) \<Longrightarrow>
   retry_failed l db =
     map (\<lambda>r. case find (\<lambda>t. tid t = tid r) l of
                 None \<Rightarrow> r
               | Some t \<Rightarrow>
                   (if retry_count t < max_retries t
                    then r\<lparr>status := PENDING, retry_count := retry_count t + 1,
                           assigned_at := None, started_at := None,
                           assigned_worker := None, error := None\<rparr>
                    else r)) db"
proof (induction l arbitrary: db)
  case Nil
  then show ?case by simp
next
  case (Cons task rest)
  then have nin: "tid task \<notin> tid ` set rest" and d: "distinct (map tid rest)" by auto
  have nf: "find (\<lambda>t. tid t = tid task) rest = None"
    using nin by (force simp: find_None_iff image_def)
  show ?case
    using nf by (auto simp: Cons.IH [OF d] update_task_rowwise)
qed

lemma check_timeouts_rowwise:
  "distinct (map tid l) \<Longrightarrow>
   check_timeouts now l db =
     map (\<lambda>r. case find (\<lambda>t. tid t = tid r) l of
                 None \<Rightarrow> r
               | Some t \<Rightarrow>
                   (case started_at t of
                      None \<Rightarrow> r
                    | Some started \<Rightarrow>
                        (if of_int (timeout_seconds t) < total_seconds now started
                         then r\<lparr>status := FAILED,
                                error := Some (''Task timed out after ''
                                   @ format_0f (total_seconds now started) @ '' seconds''),
                                completed_at := Some now\<rparr>
                         else r))) db"
proof (induction l arbitrary: db)
  case Nil
  then show ?case by simp
next
  case (Cons task rest)
  then have nin: "tid task \<notin> tid ` set rest" and d: "distinct (map tid rest)" by auto
  have nf: "find (\<lambda>t. tid t = tid task) rest = None"
    using nin by (force simp: find_None_iff image_def)
  show ?case
    using nf by (auto simp: Cons.IH [OF d] update_task_rowwise Let_def split: option.splits)
qed

lemma monitor_tasks_rowwise:
  assumes "wf_db db"
  shows "monitor_tasks now db = map (\<lambda>r. retry_row (timeout_row now r)) db"
proof -
  let ?l = "sqlite_list_tasks (Some PROCESSING) None db"
  have 1: "check_timeouts now ?l db = map (timeout_row now) db"
  proof -
    have "find (\<lambda>t. tid t = tid r) ?l = (if status r = PROCESSING then Some r else None)"
      if "r \<in> set db" for r
      using find_tid_in_sublist [of db r ?l] assms that
      by (auto simp: wf_db_def list_tasks_set)
    then show ?thesis
      by (auto simp: check_timeouts_rowwise [OF list_tasks_distinct [OF assms]]
            timeout_row_def split: option.splits)
  qed
  let ?db1 = "map (timeout_row now) db"
  let ?f = "sqlite_list_tasks (Some FAILED) None ?db1"
  have wf1: "wf_db ?db1"
    using assms by (simp add: wf_db_def comp_def)
  have 2: "retry_failed ?f ?db1 = map retry_row ?db1"
  proof -
    have "find (\<lambda>t. tid t = tid r) ?f = (if status r = FAILED then Some r else None)"
      if "r \<in> set ?db1" for r
      using find_tid_in_sublist [of ?db1 r ?f] wf1 that
      by (auto simp: wf_db_def list_tasks_set)
    then show ?thesis
      unfolding retry_failed_rowwise [OF list_tasks_distinct [OF wf1]]
      by (intro map_cong) (auto simp: retry_row_def)
  qed
  show ?thesis
    by (simp add: monitor_tasks_def Let_def 1 2)
qed


lemma mark_failed_rowwise:
  "mark_failed now i e db =
     map (\<lambda>r. if tid r = i
               then r\<lparr>status := FAILED, error := Some e, completed_at := Some now\<rparr> else r) db"
  by (simp add: mark_failed_def update_task_rowwise)

lemma tid_fail_row [simp]: "tid (fail_row now i e r) = tid r"
  by (simp add: fail_row_def)

lemma tid_fail_row_funpow [simp]: "tid ((fail_row now i e ^^ n) r) = tid r"
  by (induction n) simp_all

lemma wf_db_map: "wf_db db \<Longrightarrow> (\<And>r. tid (f r) = tid r) \<Longrightarrow> wf_db (map f db)"
  by (simp add: wf_db_def comp_def)

lemma fail_and_sweep_rowwise:
  assumes "wf_db db"
  shows "fail_and_sweep n now i e db = map (fail_row now i e ^^ n) db"
proof (induction n)
  case 0
  then show ?case by simp
next
  case (Suc n)
  have "wf_db (mark_failed now i e (map (fail_row now i e ^^ n) db))"
    unfolding mark_failed_rowwise
    by (intro wf_db_map assms) simp_all
  then show ?case
    by (simp add: Suc monitor_tasks_rowwise) (simp add: mark_failed_rowwise fail_row_def)
qed

lemma fail_row_own:
  "tid r = i \<Longrightarrow>
   status (fail_row now i e r) = (if retry_count r < max_retries r then PENDING else FAILED) \<and>
   retry_count (fail_row now i e r)
     = (if retry_count r < max_retries r then retry_count r + 1 else retry_count r) \<and>
   max_retries (fail_row now i e r) = max_retries r"
  by (simp add: fail_row_def timeout_row_def retry_row_def split: option.splits)

lemma fail_row_scenario:
  assumes "tid r = i" and "retry_count r = 0" and "max_retries r = 3"
  shows "map (\<lambda>n. (status ((fail_row now i e ^^ n) r), retry_count ((fail_row now i e ^^ n) r)))
           [1, 2, 3, 4]
         = [(PENDING, 1), (PENDING, 2), (PENDING, 3), (FAILED, 3)]"
proof -
  let ?F = "fail_row now i e"
  have 1: "status (?F r) = PENDING" "retry_count (?F r) = 1" "max_retries (?F r) = 3"
    using fail_row_own [of r i now e] assms by simp_all
  have 2: "status (?F (?F r)) = PENDING" "retry_count (?F (?F r)) = 2"
    "max_retries (?F (?F r)) = 3"
    using fail_row_own [of "?F r" i now e] assms 1 by simp_all
  have 3: "status (?F (?F (?F r))) = PENDING" "retry_count (?F (?F (?F r))) = 3"
    "max_retries (?F (?F (?F r))) = 3"
    using fail_row_own [of "?F (?F r)" i now e] assms 2 by simp_all
  have 4: "status (?F (?F (?F (?F r)))) = FAILED" "retry_count (?F (?F (?F (?F r)))) = 3"
    using fail_row_own [of "?F (?F (?F r))" i now e] assms 3 by simp_all
  show ?thesis
    by (simp add: numeral_eq_Suc 1 2 3 4)
qed

lemma retry_bound_submit:
  assumes "\<forall>t\<in>set db. retry_count t \<le> max_retries t"
    and "submit_task new_id now descr tt wt prio timeout deps params db = Inr (i, db')"
  shows "\<forall>t\<in>set db'. retry_count t \<le> max_retries t"
  using assms
  by (auto simp: submit_task_def new_task_def sqlite_add_task_def Let_def
      split: sum.splits if_splits option.splits)

lemma retry_bound_claim:
  assumes "\<forall>t\<in>set db. retry_count t \<le> max_retries t"
  shows "\<forall>t\<in>set (snd (sqlite_get_next_task now wt db)). retry_count t \<le> max_retries t"
  using assms
  by (auto simp: sqlite_get_next_task_def split: option.splits)

lemma fold_apply_update_retry:
  "\<forall>v. Set_retry_count v \<notin> set ups \<Longrightarrow>
   retry_count (fold apply_update ups t) = retry_count t \<and>
   max_retries (fold apply_update ups t) = max_retries t"
proof (induction ups arbitrary: t)
  case Nil
  then show ?case by simp
next
  case (Cons u ups)
  then show ?case by (cases u) auto
qed

lemma retry_bound_update:
  assumes "\<forall>t\<in>set db. retry_count t \<le> max_retries t"
    and "\<forall>v. Set_retry_count v \<notin> set ups"
  shows "\<forall>t\<in>set (snd (sqlite_update_task i ups db)). retry_count t \<le> max_retries t"
  using assms fold_apply_update_retry [of "filter is_column ups"]
  by (auto simp: update_task_rowwise)

text \<open>
  On the SQLite backend a pass of the monitor keeps \<open>retry_count \<le> max_retries\<close> on
  every row; it turns every failed task with \<open>retry_count < max_retries\<close> into a pending task with
  \<open>retry_count\<close> one higher and \<open>assigned_worker\<close>, \<open>started_at\<close> and \<open>error\<close>
  cleared; it leaves a failed task that has used its retries as it is; and a task
  with \<open>max_retries = 3\<close> and \<open>retry_count = 0\<close> that fails before every pass is
  pending after the first, second and third pass and failed, with \<open>retry_count = 3\<close>,
  after the fourth.
\<close>

lemma sqlite_retry_sweep:
  assumes "wf_db db" and "\<forall>t\<in>set db. retry_count t \<le> max_retries t"
  shows "(\<forall>t\<in>set (monitor_tasks now db). retry_count t \<le> max_retries t) \<and>
         (\<forall>t\<in>set db. status t = FAILED \<and> retry_count t < max_retries t \<longrightarrow>
            (\<exists>t'. sqlite_get_task (tid t) (monitor_tasks now db) = Some t' \<and>
                   status t' = PENDING \<and> retry_count t' = retry_count t + 1 \<and>
                   assigned_worker t' = None \<and> started_at t' = None \<and> error t' = None)) \<and>
         (\<forall>t\<in>set db. status t = FAILED \<and> \<not> retry_count t < max_retries t \<longrightarrow>
            sqlite_get_task (tid t) (monitor_tasks now db) = Some t) \<and>
         (\<forall>t\<in>set db. retry_count t = 0 \<and> max_retries t = 3 \<longrightarrow>
            map (\<lambda>n. map_option (\<lambda>r. (status r, retry_count r))
                       (sqlite_get_task (tid t) (fail_and_sweep n now (tid t) e db)))
              [1, 2, 3, 4]
            = [Some (PENDING, 1), Some (PENDING, 2), Some (PENDING, 3), Some (FAILED, 3)])"
proof (intro conjI ballI impI)
  fix t assume "t \<in> set (monitor_tasks now db)"
  then obtain r where r: "r \<in> set db" "t = retry_row (timeout_row now r)"
    using assms(1) by (auto simp: monitor_tasks_rowwise)
  with assms(2) have "retry_count r \<le> max_retries r" by blast
  with r(2) show "retry_count t \<le> max_retries t"
    by (auto simp: retry_row_def timeout_row_def split: option.splits)
next
  fix t assume t: "t \<in> set db" "status t = FAILED \<and> retry_count t < max_retries t"
  have "sqlite_get_task (tid t) (monitor_tasks now db) = Some (retry_row (timeout_row now t))"
    using assms(1) t(1)
    by (simp add: monitor_tasks_rowwise sqlite_get_task_def wf_db_def find_tid_map)
  with t(2) show "\<exists>t'. sqlite_get_task (tid t) (monitor_tasks now db) = Some t' \<and>
                   status t' = PENDING \<and> retry_count t' = retry_count t + 1 \<and>
                   assigned_worker t' = None \<and> started_at t' = None \<and> error t' = None"
    by (simp add: retry_row_def timeout_row_def split: option.splits)
next
  fix t assume t: "t \<in> set db" "status t = FAILED \<and> \<not> retry_count t < max_retries t"
  have "sqlite_get_task (tid t) (monitor_tasks now db) = Some (retry_row (timeout_row now t))"
    using assms(1) t(1)
    by (simp add: monitor_tasks_rowwise sqlite_get_task_def wf_db_def find_tid_map)
  with t(2) show "sqlite_get_task (tid t) (monitor_tasks now db) = Some t"
    by (simp add: retry_row_def timeout_row_def split: option.splits)
next
  fix t assume t: "t \<in> set db" "retry_count t = 0 \<and> max_retries t = 3"
  have "sqlite_get_task (tid t) (fail_and_sweep n now (tid t) e db)
          = Some ((fail_row now (tid t) e ^^ n) t)" for n
    using assms(1) t(1)
    by (simp add: fail_and_sweep_rowwise sqlite_get_task_def wf_db_def find_tid_map)
  then show "map (\<lambda>n. map_option (\<lambda>r. (status r, retry_count r))
                       (sqlite_get_task (tid t) (fail_and_sweep n now (tid t) e db)))
              [1, 2, 3, 4]
            = [Some (PENDING, 1), Some (PENDING, 2), Some (PENDING, 3), Some (FAILED, 3)]"
    using fail_row_scenario [of t "tid t" now e] t(2) by simp
qed

lemma sqlite_retry_sweep_failed_queue:
  "wf_db failed_queue \<and> list_all (\<lambda>t. retry_count t \<le> max_retries t) failed_queue \<and>
   map (\<lambda>t. (tid t, status t, retry_count t, max_retries t)) failed_queue
     = [(''f'', FAILED, 0, 3), (''g'', FAILED, 3, 3)] \<and>
   list_all (\<lambda>t. retry_count t \<le> max_retries t) (monitor_tasks 100 failed_queue) \<and>
   (\<exists>t'. sqlite_get_task ''f'' (monitor_tasks 100 failed_queue) = Some t' \<and>
          status t' = PENDING \<and> retry_count t' = 1 \<and>
          assigned_worker t' = None \<and> started_at t' = None \<and> error t' = None) \<and>
   map_option (\<lambda>r. (status r, retry_count r))
     (sqlite_get_task ''g'' (monitor_tasks 100 failed_queue)) = Some (FAILED, 3) \<and>
   map (\<lambda>n. map_option (\<lambda>r. (status r, retry_count r))
              (sqlite_get_task ''f'' (fail_and_sweep n 100 ''f'' ''boom'' failed_queue)))
     [1, 2, 3, 4]
   = [Some (PENDING, 1), Some (PENDING, 2), Some (PENDING, 3), Some (FAILED, 3)]"
  using sqlite_retry_sweep [of failed_queue 100 "''boom''"]
  by (simp add: failed_queue_def example_task_def wf_db_def list_all_iff)

lemma failed_redis_task:
  "redis_get_task ''f'' failed_redis
     = Some ((example_task ''f'' 5 1 [])\<lparr>status := FAILED,
               assigned_worker := Some ''Scraper-01'', started_at := Some 50,
               error := Some ''boom'', result := Some ''None''\<rparr>)"
  by (simp add: failed_redis_def failed_queue_def redis_add_task_ok example_task_def
      redis_get_task_def zadd_def empty_redis_def)

text \<open>
  C4 (the code does not do what the claim says). When the queue runs on the Redis
  backend, \<^verbatim>\<open>list_tasks\<close> raises \<^verbatim>\<open>NotImplementedError\<close>, so that a pass of the monitor ends in its \<^verbatim>\<open>except\<close>
  clause and leaves the server as it was, whatever it holds. On a server that holds
  the failed task \<open>f\<close> with \<open>retry_count = 0\<close> and \<open>max_retries = 3\<close>, the task is
  still failed with \<open>retry_count = 0\<close> after the pass; on the SQLite backend the pass
  over the same task makes it pending with \<open>retry_count = 1\<close>, as the claim says.
\<close>

theorem C4_redis_sweep_retries_nothing:
  "tq_list_tasks (Some FAILED) None (Redis_backend r) = Inl NotImplementedError \<and>
   tq_monitor_tasks now (Redis_backend r) = (Some NotImplementedError, Redis_backend r) \<and>
   map_option (\<lambda>t. (status t, retry_count t, max_retries t))
     (tq_get_task ''f'' (Redis_backend failed_redis)) = Some (FAILED, 0, 3) \<and>
   (case tq_monitor_tasks 100 (Redis_backend failed_redis) of
      (e, b) \<Rightarrow> (e, map_option (\<lambda>t. (status t, retry_count t)) (tq_get_task ''f'' b)))
   = (Some NotImplementedError, Some (FAILED, 0)) \<and>
   (case tq_monitor_tasks 100 (SQLite_backend failed_queue) of
      (e, b) \<Rightarrow> (e, map_option (\<lambda>t. (status t, retry_count t)) (tq_get_task ''f'' b)))
   = (None, Some (PENDING, 1))"
proof -
  from sqlite_retry_sweep_failed_queue
  obtain t' where "sqlite_get_task ''f'' (monitor_tasks 100 failed_queue) = Some t'"
    "status t' = PENDING" "retry_count t' = 1"
    by blast
  then show ?thesis
    by (simp add: tq_list_tasks_def tq_monitor_tasks_def tq_get_task_def failed_redis_task
        example_task_def)
qed

subsection \<open>The worker processes a task\<close>

lemma find_tid_updated:
  assumes "i \<in> set (map tid db)" and "\<And>r. tid (f r) = tid r"
  shows "\<exists>r. r \<in> set db \<and> tid r = i \<and>
             find (\<lambda>t. tid t = i) (map (\<lambda>t. if tid t = i then f t else t) db) = Some (f r)"
  using assms(1)
proof (induction db)
  case Nil
  then show ?case by simp
next
  case (Cons a db)
  then show ?case using assms(2) by (cases "tid a = i") auto
qed

lemma tid_fold_apply_update [simp]: "tid (fold apply_update ups t) = tid t"
proof (induction ups arbitrary: t)
  case Nil
  then show ?case by simp
next
  case (Cons u ups)
  then show ?case by (cases u) simp_all
qed

text \<open>
  C3, as stated, fails: when the executor returns normally, \<^verbatim>\<open>_process_task\<close> writes
  nothing to the task. With an executor that returns without touching the queue, the
  task is left in \<^verbatim>\<open>PROCESSING\<close> with no result.
\<close>

theorem C3_not_completed_counterexample:
  "map_option (\<lambda>t. (status t, result t))
     (sqlite_get_task ''t1''
        (snd (process_task 100 returning_executor example_worker assigned_queue
                (example_task ''t1'' 5 1 [])))) = Some (PROCESSING, None)"
  by (simp add: process_task_def returning_executor_def example_worker_def assigned_queue_def
      example_task_def sqlite_update_task_def sqlite_get_task_def Let_def)

text \<open>
  C3, amended: for a task of the queue, the worker marks it \<^verbatim>\<open>PROCESSING\<close> (with
  \<^verbatim>\<open>started_at\<close> and \<^verbatim>\<open>assigned_worker\<close>) and runs the executor on the queue so
  updated. If the executor returns normally, the worker leaves the queue as the
  executor left it, counts the task as completed and clears its current task (marking
  the task \<^verbatim>\<open>COMPLETED\<close> with a result is left to the executor). If the executor
  raises, the worker marks the task \<^verbatim>\<open>FAILED\<close> with the text of the exception and the
  time, and counts an error. In both cases the status of the worker is unchanged, and
  a pass of the body of the work loop keeps the condition of the loop true.
\<close>

theorem C3_process_task:
  assumes "tid task \<in> set (map tid db)"
  shows "let db1 = snd (sqlite_update_task (tid task)
                          [Set_status PROCESSING, Set_started_at (Some now),
                           Set_assigned_worker (Some (mw_worker_id w))] db)
         in (\<exists>r. sqlite_get_task (tid task) db1 = Some r \<and> status r = PROCESSING \<and>
                  started_at r = Some now \<and> assigned_worker r = Some (mw_worker_id w)) \<and>
            (\<forall>db2. execute_task (tid task) db1 = (Inr (), db2) \<longrightarrow>
               process_task now execute_task w db task
                 = (w\<lparr>current_task := None, last_activity := now,
                      tasks_completed := tasks_completed w + 1\<rparr>, db2)) \<and>
            (\<forall>e db2. execute_task (tid task) db1 = (Inl e, db2) \<and> tid task \<in> set (map tid db2) \<longrightarrow>
               (\<exists>r. sqlite_get_task (tid task) (snd (process_task now execute_task w db task))
                      = Some r \<and>
                    status r = FAILED \<and> error r = Some e \<and> completed_at r = Some now) \<and>
               fst (process_task now execute_task w db task)
                 = w\<lparr>current_task := Some (tid task), last_activity := now,
                     error_count := error_count w + 1\<rparr>) \<and>
            mw_status (fst (process_task now execute_task w db task)) = mw_status w \<and>
            (work_loop_running w \<longrightarrow>
               work_loop_running (fst (work_loop_body now execute_task ct w queue)))"
proof -
  let ?ups = "[Set_status PROCESSING, Set_started_at (Some now),
               Set_assigned_worker (Some (mw_worker_id w))]"
  let ?db1 = "snd (sqlite_update_task (tid task) ?ups db)"
  have a: "\<exists>r. sqlite_get_task (tid task) ?db1 = Some r \<and> status r = PROCESSING \<and>
                  started_at r = Some now \<and> assigned_worker r = Some (mw_worker_id w)"
    using find_tid_updated [OF assms, of "fold apply_update ?ups"]
    by (auto simp: sqlite_get_task_def update_task_rowwise cong: if_cong)
  have b: "process_task now execute_task w db task
                 = (w\<lparr>current_task := None, last_activity := now,
                      tasks_completed := tasks_completed w + 1\<rparr>, db2)"
    if "execute_task (tid task) ?db1 = (Inr (), db2)" for db2
    using that by (simp add: process_task_def Let_def)
  have c: "(\<exists>r. sqlite_get_task (tid task) (snd (process_task now execute_task w db task))
                      = Some r \<and>
                    status r = FAILED \<and> error r = Some e \<and> completed_at r = Some now) \<and>
               fst (process_task now execute_task w db task)
                 = w\<lparr>current_task := Some (tid task), last_activity := now,
                     error_count := error_count w + 1\<rparr>"
    if "execute_task (tid task) ?db1 = (Inl e, db2)" "tid task \<in> set (map tid db2)" for e db2
    using that(1)
      find_tid_updated [OF that(2), of "fold apply_update
         [Set_status FAILED, Set_error (Some e), Set_completed_at (Some now)]"]
    by (auto simp: process_task_def Let_def sqlite_get_task_def update_task_rowwise
          cong: if_cong)
  have d: "mw_status (fst (process_task now ex w db' task')) = mw_status w" for ex db' task'
    by (simp add: process_task_def Let_def split: prod.splits sum.splits)
  have d': "mw_status w1 = mw_status w"
    if "process_task now ex w db' task' = (w1, d2)" for ex db' task' w1 d2
    using d [of ex db' task'] that by simp
  have e: "work_loop_running (fst (work_loop_body now execute_task ct w queue))"
    if "work_loop_running w"
    using that
    by (auto simp: work_loop_body_def work_loop_running_def pause_def
          split: sum.splits option.splits prod.splits bool.splits dest: d')
  show ?thesis
    unfolding Let_def using a b c d e by blast
qed


theorem C3_process_task_witness:
  "tid (example_task ''t1'' 5 1 []) \<in> set (map tid assigned_queue) \<and>
   (\<exists>r. sqlite_get_task ''t1''
          (snd (process_task 100 (raising_executor ''boom'') example_worker assigned_queue
                  (example_task ''t1'' 5 1 []))) = Some r \<and>
        status r = FAILED \<and> error r = Some ''boom'' \<and> completed_at r = Some 100) \<and>
   error_count (fst (process_task 100 (raising_executor ''boom'') example_worker
                       assigned_queue (example_task ''t1'' 5 1 []))) = 1 \<and>
   work_loop_running example_worker \<and>
   work_loop_running
     (fst (work_loop_body 100 (raising_executor ''boom'') example_tracker example_worker
             (Some [example_task ''t1'' 5 1 []])))"
  using C3_process_task [of "example_task ''t1'' 5 1 []" assigned_queue 100 example_worker
          "raising_executor ''boom''" example_tracker "Some [example_task ''t1'' 5 1 []]"]
  by (simp add: Let_def raising_executor_def assigned_queue_def example_task_def
      example_worker_def work_loop_running_def sqlite_update_task_def sqlite_get_task_def
      process_task_def)

subsection \<open>Emergency shutdown\<close>

lemma gather_Inr: "gather (map (\<lambda>w. Inr (f w)) ws) = Inr (map f ws)"
  by (induction ws) simp_all

lemma count_list_distinct: "distinct xs \<Longrightarrow> x \<in> set xs \<Longrightarrow> count_list xs x = 1"
  by (induction xs) (auto simp: count_list_0_iff)

lemma count_list_stop_calls:
  "count_list (map (\<lambda>w. Worker_stop_called (mw_worker_id w)) ws) (Worker_stop_called i)
     = count_list (map mw_worker_id ws) i"
  by (induction ws) simp_all

lemma wf_workers_ids: "wf_workers ws \<Longrightarrow> map mw_worker_id (dict_values ws) = map fst ws"
  by (induction ws) (auto simp: wf_workers_def dict_values_def)

lemma stop_all_stopped:
  "list_all (\<lambda>(i, w). mw_status w = ''stopped'') (map (\<lambda>(i, w). (i, stop w)) ws)"
  by (induction ws) (auto simp: stop_def)

lemma stop_all_none_active:
  "filter (\<lambda>w. mw_status w = ''active'') (dict_values (map (\<lambda>(i, w). (i, stop w)) ws)) = []"
  by (induction ws) (auto simp: stop_def dict_values_def)

lemma stop_calls_no_report:
  "filter is_shutdown_file (map (\<lambda>w. Worker_stop_called (mw_worker_id w)) ws) = []"
  by (induction ws) simp_all

lemma get_daily_summary_ok:
  "daily_limit_gbp ct \<noteq> 0 \<Longrightarrow> \<exists>s. get_daily_summary ct = Inr s"
  by (simp add: get_daily_summary_def fdiv_def)

lemma get_daily_summary_zero:
  "daily_limit_gbp ct = 0 \<Longrightarrow> get_daily_summary ct = Inl ZeroDivisionError"
  by (simp add: get_daily_summary_def fdiv_def)

lemma calculate_system_health_ok:
  assumes "daily_limit_gbp (cost_tracker sm) \<noteq> 0"
  shows "\<exists>h. calculate_system_health now sm = Inr h \<and>
             sh_emergency_shutdown h = emergency_shutdown_active sm \<and>
             (emergency_shutdown_active sm \<longrightarrow> overall_status h = ''emergency'') \<and>
             active_workers h
               = length (filter (\<lambda>w. mw_status w = ''active'') (dict_values (workers sm)))"
proof -
  from get_daily_summary_ok [OF assms]
  obtain s where s: "get_daily_summary (cost_tracker sm) = Inr s" ..
  have g: "map (get_status now (cost_tracker sm)) ws
             = map (\<lambda>w. Inr \<lparr>ws_worker_id = mw_worker_id w, ws_worker_type = mw_worker_type w,
               ws_status = mw_status w, ws_last_activity = last_activity w,
               ws_tasks_completed = tasks_completed w, ws_current_task = current_task w,
               cost_today = dict_get (costs_by_worker s) (mw_worker_id w) 0,
               uptime_seconds = total_seconds now (start_time w),
               ws_error_count = error_count w\<rparr>) ws" for ws
    by (simp add: get_status_def s)
  show ?thesis
    by (simp add: calculate_system_health_def s g gather_Inr Let_def)
qed

lemma calculate_system_health_log [simp]:
  "calculate_system_health now (sm\<lparr>sm_log := l\<rparr>) = calculate_system_health now sm"
  by (simp add: calculate_system_health_def Let_def cong: sum.case_cong if_cong)

text \<open>
  C7 (the code does not do what the claim says). From a state in which no shutdown
  is active, with a daily
  limit other than zero and the workers registered under their ids, the first of two
  calls of \<^verbatim>\<open>_trigger_emergency_shutdown\<close> in a row raises \<^verbatim>\<open>TypeError\<close> while it writes
  the shutdown report, and the only write of the shutdown file over both calls leaves
  the head of a report, with the reason, the time of the first call and the number of
  workers, cut before the health snapshot. The rest of the claim holds: the second
  call raises nothing and changes nothing; over both calls \<^verbatim>\<open>stop\<close> is called once on
  every registered worker and every worker ends stopped. For the cost tracker, a
  second call of \<^verbatim>\<open>_emergency_shutdown\<close> changes nothing, and two calls from a state
  without shutdown write the signal file once.
\<close>

theorem C7_shutdown_report_cut:
  assumes "\<not> emergency_shutdown_active sm"
    and "daily_limit_gbp (cost_tracker sm) \<noteq> 0"
    and "wf_workers (workers sm)"
  shows "case trigger_emergency_shutdown now1 why1 sm of (e1, sm1) \<Rightarrow>
         case trigger_emergency_shutdown now2 why2 sm1 of (e2, sm2) \<Rightarrow>
           e1 = Some TypeError \<and> e2 = None \<and> sm2 = sm1 \<and>
           list_all (\<lambda>(i, w). mw_status w = ''stopped'') (workers sm2) \<and>
           (\<exists>evs.
              sm_log sm2 = sm_log sm @ evs \<and>
              list_all (\<lambda>i. count_list evs (Worker_stop_called i) = 1) (map fst (workers sm)) \<and>
              filter is_shutdown_file evs
                = [Shutdown_file_written
                     (File_cut_in_system_health
                        \<lparr>shutdown_time = now1, reason = why1,
                         report_active_workers = length (workers sm)\<rparr>)]) \<and>
           (let ct = cost_tracker sm;
                ct1 = ct_emergency_shutdown now1 ct;
                ct2 = ct_emergency_shutdown now2 ct1
            in ct2 = ct1 \<and>
               (if emergency_shutdown ct then ct1 = ct
                else files ct2
                       = files ct @ [Emergency_shutdown_file now1 (daily_total ct)
                                       (daily_limit_gbp ct)]))"
proof -
  let ?sm1 = "sm\<lparr>emergency_shutdown_active := True, shutdown_reason := Some why1\<rparr>"
  let ?sm2 = "create_alert now1 ''emergency'' ''system''
                (''Emergency shutdown triggered: '' @ why1) (why1, now1) ?sm1"
  let ?sm3 = "stop_all_workers ?sm2"
  let ?sm4 = "?sm3\<lparr>task_queue := map_option tq_stop_monitoring (task_queue ?sm3)\<rparr>"
  let ?sm5 = "?sm4\<lparr>cost_tracker := ct_stop_monitoring (cost_tracker ?sm4)\<rparr>"
  have lim: "daily_limit_gbp (cost_tracker ?sm5) \<noteq> 0"
    using assms(2)
    by (simp add: create_alert_def stop_all_workers_def ct_stop_monitoring_def
        save_daily_costs_def Let_def)
  have act: "emergency_shutdown_active ?sm5"
    by (simp add: create_alert_def stop_all_workers_def Let_def)
  from calculate_system_health_ok [OF lim, of now1]
  obtain h where h: "calculate_system_health now1 ?sm5 = Inr h"
    by blast
  have w5: "workers ?sm5 = map (\<lambda>(i, w). (i, stop w)) (workers sm)"
    by (simp add: create_alert_def stop_all_workers_def Let_def)
  have stopped: "list_all (\<lambda>(i, w). mw_status w = ''stopped'') (workers ?sm5)"
    unfolding w5 by (rule stop_all_stopped)
  let ?rep = "Shutdown_file_written
                (File_cut_in_system_health
                   \<lparr>shutdown_time = now1, reason = why1,
                    report_active_workers = length (workers sm)\<rparr>)"
  let ?fin = "?sm5\<lparr>sm_log := sm_log ?sm5 @ [?rep]\<rparr>"
  have len: "length (workers ?sm5) = length (workers sm)"
    unfolding w5 by simp
  have "trigger_emergency_shutdown now1 why1 sm
          = (Some TypeError, ?sm5\<lparr>sm_log := sm_log ?sm5 @
                [Shutdown_file_written
                   (File_cut_in_system_health
                      \<lparr>shutdown_time = now1, reason = why1,
                       report_active_workers = length (workers ?sm5)\<rparr>)]\<rparr>)"
    by (simp only: trigger_emergency_shutdown_def Let_def assms(1) if_False h sum.case)
  then have t1: "trigger_emergency_shutdown now1 why1 sm = (Some TypeError, ?fin)"
    by (simp only: len)
  have t2: "trigger_emergency_shutdown now2 why2 ?fin = (None, ?fin)"
    using act by (simp add: trigger_emergency_shutdown_def)
  let ?evs = "Alert_saved \<lparr>sa_timestamp = now1, sa_severity = ''emergency'',
                 sa_component = ''system'',
                 sa_message = ''Emergency shutdown triggered: '' @ why1,
                 sa_details = (why1, now1), resolved = False, resolved_at = None\<rparr>
              # map (\<lambda>w. Worker_stop_called (mw_worker_id w)) (dict_values (workers sm))
              @ [?rep]"
  have log: "sm_log ?fin = sm_log sm @ ?evs"
    by (simp add: create_alert_def stop_all_workers_def Let_def)
  have cnt: "list_all (\<lambda>i. count_list ?evs (Worker_stop_called i) = 1) (map fst (workers sm))"
    using assms(3) wf_workers_ids [OF assms(3)]
    by (auto simp: list_all_iff count_list_stop_calls count_list_distinct wf_workers_def)
  have rep: "filter is_shutdown_file ?evs = [?rep]"
    by (simp add: stop_calls_no_report)
  have ct: "let ct = cost_tracker sm;
                ct1 = ct_emergency_shutdown now1 ct;
                ct2 = ct_emergency_shutdown now2 ct1
            in ct2 = ct1 \<and>
               (if emergency_shutdown ct then ct1 = ct
                else files ct2
                       = files ct @ [Emergency_shutdown_file now1 (daily_total ct)
                                       (daily_limit_gbp ct)])"
    by (simp add: ct_emergency_shutdown_def Let_def)
  have ex: "\<exists>evs.
              sm_log ?fin = sm_log sm @ evs \<and>
              list_all (\<lambda>i. count_list evs (Worker_stop_called i) = 1) (map fst (workers sm)) \<and>
              filter is_shutdown_file evs = [?rep]"
    using log cnt rep by blast
  have st: "list_all (\<lambda>(i, w). mw_status w = ''stopped'') (workers ?fin)"
    using stopped by simp
  show ?thesis
    unfolding t1 prod.case t2 using ex st ct by simp
qed

theorem C7_shutdown_report_cut_witness:
  "\<not> emergency_shutdown_active example_monitor \<and>
   daily_limit_gbp (cost_tracker example_monitor) \<noteq> 0 \<and>
   wf_workers (workers example_monitor) \<and>
   map fst (workers example_monitor) = [''Scraper-01'', ''Audio-01''] \<and>
   (case trigger_emergency_shutdown 100 ''cost_limit_exceeded'' example_monitor of
      (e1, sm1) \<Rightarrow>
        case trigger_emergency_shutdown 200 ''emergency_alerts'' sm1 of
          (e2, sm2) \<Rightarrow>
            e1 = Some TypeError \<and> e2 = None \<and> sm2 = sm1 \<and>
            list_all (\<lambda>(i, w). mw_status w = ''stopped'') (workers sm2) \<and>
            (\<exists>evs.
               sm_log sm2 = sm_log example_monitor @ evs \<and>
               list_all (\<lambda>i. count_list evs (Worker_stop_called i) = 1)
                 [''Scraper-01'', ''Audio-01''] \<and>
               filter is_shutdown_file evs
                 = [Shutdown_file_written
                      (File_cut_in_system_health
                         \<lparr>shutdown_time = 100, reason = ''cost_limit_exceeded'',
                          report_active_workers = 2\<rparr>)]))"
proof -
  have hyps: "\<not> emergency_shutdown_active example_monitor"
    "daily_limit_gbp (cost_tracker example_monitor) \<noteq> 0"
    "wf_workers (workers example_monitor)"
    and ids: "map fst (workers example_monitor) = [''Scraper-01'', ''Audio-01'']"
    by (simp_all add: example_monitor_def register_worker_def example_worker_def
        example_tracker_def wf_workers_def)
  have len: "length (workers example_monitor) = 2"
    using arg_cong [OF ids, of length] by simp
  show ?thesis
    using hyps ids
      C7_shutdown_report_cut [OF hyps, of 100 "''cost_limit_exceeded''" 200
        "''emergency_alerts''"]
    by (simp only: ids len) (auto split: prod.splits)
qed

text \<open>
  When the daily limit is zero the health snapshot raises \<^verbatim>\<open>ZeroDivisionError\<close>: the
  first call leaves the shutdown file empty.
\<close>

lemma shutdown_file_empty:
  assumes "\<not> emergency_shutdown_active sm" and "daily_limit_gbp (cost_tracker sm) = 0"
  shows "\<exists>evs. trigger_emergency_shutdown now why sm
                 = (Some ZeroDivisionError, evs) \<and>
               filter is_shutdown_file (sm_log evs)
                 = filter is_shutdown_file (sm_log sm) @ [Shutdown_file_written File_empty]"
proof -
  let ?sm1 = "sm\<lparr>emergency_shutdown_active := True, shutdown_reason := Some why\<rparr>"
  let ?sm2 = "create_alert now ''emergency'' ''system''
                (''Emergency shutdown triggered: '' @ why) (why, now) ?sm1"
  let ?sm3 = "stop_all_workers ?sm2"
  let ?sm4 = "?sm3\<lparr>task_queue := map_option tq_stop_monitoring (task_queue ?sm3)\<rparr>"
  let ?sm5 = "?sm4\<lparr>cost_tracker := ct_stop_monitoring (cost_tracker ?sm4)\<rparr>"
  have lim: "daily_limit_gbp (cost_tracker ?sm5) = 0"
    using assms(2)
    by (simp add: create_alert_def stop_all_workers_def ct_stop_monitoring_def
        save_daily_costs_def Let_def)
  have "get_daily_summary (cost_tracker ?sm5) = Inl ZeroDivisionError"
    by (rule get_daily_summary_zero [OF lim])
  then have h: "calculate_system_health now ?sm5 = Inl ZeroDivisionError"
    by (simp only: calculate_system_health_def Let_def sum.case)
  have t: "trigger_emergency_shutdown now why sm
             = (Some ZeroDivisionError,
                ?sm5\<lparr>sm_log := sm_log ?sm5 @ [Shutdown_file_written File_empty]\<rparr>)"
    by (simp only: trigger_emergency_shutdown_def Let_def assms(1) if_False h sum.case)
  show ?thesis
    unfolding t
    by (simp add: create_alert_def stop_all_workers_def Let_def stop_calls_no_report)
qed

subsection \<open>Alerts of the cost tracker\<close>

lemma fl_consts:
  "fl (7 / 10) = 3152519739159347 / 4503599627370496"
  "fl (9 / 10) = 8106479329266893 / 9007199254740992"
  "fl (8 / 10) = 3602879701896397 / 4503599627370496"
  by code_simp+

lemma worker_soft_cap: "fmul worker_limit (fl (8 / 10)) = 4"
  unfolding worker_limit_def by code_simp

lemma thresholds_ordered:
  assumes "0 \<le> L" and "is_float L"
  shows "fmul L (fl (7 / 10)) \<le> fmul L (fl (9 / 10)) \<and> fmul L (fl (9 / 10)) \<le> L"
proof -
  have c: "0 \<le> fl (7 / 10)" "fl (7 / 10) \<le> fl (9 / 10)" "fl (9 / 10) \<le> 1"
    by (simp_all add: fl_consts)
  have 1: "0 \<le> L * fl (7 / 10)" using assms(1) c(1) by simp
  have 2: "L * fl (7 / 10) \<le> L * fl (9 / 10)"
    using assms(1) c(2) by (rule mult_left_mono [rotated])
  have 3: "0 \<le> L * fl (9 / 10)" using 1 2 by simp
  have 4: "L * fl (9 / 10) \<le> L"
    using mult_left_mono [OF c(3) assms(1)] by simp
  have "fl (L * fl (9 / 10)) \<le> fl L" using 3 4 by (rule fl_mono_nonneg)
  moreover have "fl (L * fl (7 / 10)) \<le> fl (L * fl (9 / 10))"
    using 1 2 by (rule fl_mono_nonneg)
  ultimately show ?thesis
    using assms(2) by (simp add: fmul_def is_float_def)
qed

lemma alerts_handle_cost_alert:
  "alerts (handle_cost_alert now a ct)
     = alerts ct @ [a\<lparr>action_taken := (if severity a = INFO then action_taken a
                                         else action_of (severity a))\<rparr>]"
  by (cases "severity a")
     (simp_all add: handle_cost_alert_def ct_emergency_shutdown_def
        ct_pause_non_essential_workers_def notify_project_manager_def Let_def)

lemma daily_severity_cases:
  "daily_severity L t =
     (if L < t then EMERGENCY else if fmul L (fl (9 / 10)) < t then CRITICAL else WARNING)"
  by (simp add: daily_severity_def Let_def)

lemma check_cost_guardrails_alerts:
  assumes "0 \<le> daily_limit_gbp ct" and "is_float (daily_limit_gbp ct)"
  shows "let limit = daily_limit_gbp ct;
             total_cost = daily_total ct;
             worker_cost = dict_get (worker_costs ct) (worker_id event) 0;
             soft_cap = fmul worker_limit (fl (8 / 10));
             t70 = fmul limit (fl (7 / 10));
             t90 = fmul limit (fl (9 / 10))
         in soft_cap = 4 \<and> worker_limit = 5 \<and> t70 \<le> t90 \<and> t90 \<le> limit \<and>
            (\<exists>new. alerts (check_cost_guardrails now event ct) = alerts ct @ new \<and>
               map (\<lambda>a. (severity a, alert_worker_id a, action_taken a)) new
                 = (if worker_cost \<le> soft_cap then []
                    else if worker_cost < worker_limit
                    then [(WARNING, worker_id event, Some ''notification_sent'')]
                    else [(CRITICAL, worker_id event, Some ''pause_non_essential'')])
                   @ (if total_cost \<le> t70 then []
                      else if total_cost \<le> t90
                      then [(WARNING, ''all'', Some ''notification_sent'')]
                      else if total_cost \<le> limit
                      then [(CRITICAL, ''all'', Some ''pause_non_essential'')]
                      else [(EMERGENCY, ''all'', Some ''emergency_shutdown'')]))"
proof -
  note ord = thresholds_ordered [OF assms]
  have wl: "worker_limit = 5" by (simp add: worker_limit_def)
  let ?new = "drop (length (alerts ct)) (alerts (check_cost_guardrails now event ct))"
  have a: "alerts (check_cost_guardrails now event ct) = alerts ct @ ?new"
    by (simp add: check_cost_guardrails_def Let_def alerts_handle_cost_alert)
  have m: "map (\<lambda>a. (severity a, alert_worker_id a, action_taken a)) ?new
        = (if dict_get (worker_costs ct) (worker_id event) 0 \<le> fmul worker_limit (fl (8 / 10))
           then []
           else if dict_get (worker_costs ct) (worker_id event) 0 < worker_limit
           then [(WARNING, worker_id event, Some ''notification_sent'')]
           else [(CRITICAL, worker_id event, Some ''pause_non_essential'')])
          @ (if daily_total ct \<le> fmul (daily_limit_gbp ct) (fl (7 / 10)) then []
             else if daily_total ct \<le> fmul (daily_limit_gbp ct) (fl (9 / 10))
             then [(WARNING, ''all'', Some ''notification_sent'')]
             else if daily_total ct \<le> daily_limit_gbp ct
             then [(CRITICAL, ''all'', Some ''pause_non_essential'')]
             else [(EMERGENCY, ''all'', Some ''emergency_shutdown'')])"
    using ord
    by (auto simp: check_cost_guardrails_def Let_def alerts_handle_cost_alert
          daily_severity_cases worker_severity_def not_le not_less)
  show ?thesis
    unfolding Let_def using worker_soft_cap wl ord a m by blast
qed


lemma alerts_save_daily_costs [simp]: "alerts (save_daily_costs ct) = alerts ct"
  by (simp add: save_daily_costs_def)

text \<open>
  C6: for a daily limit that is a float and not negative, recording a cost event
  appends alerts as follows, on the totals that include the event. The worker
  thresholds are 4 (the product of the worker limit 5 and 0.8) and 5: a worker total
  above 4 and below 5 gives a warning, a worker total of 5 or more a critical alert.
  The daily thresholds are the products of the limit with 0.7 and with 0.9, and the
  limit, in this order: a daily total above the first gives a warning, above the second
  a critical alert, above the limit an emergency alert. Each alert carries the action
  of its severity.
\<close>

theorem C6_alert_severities:
  assumes "0 \<le> daily_limit_gbp ct" and "is_float (daily_limit_gbp ct)"
  shows "let limit = daily_limit_gbp ct;
             total_cost = py_sum (dict_values
                            (add_cost (service event) (cost_gbp event) (daily_costs ct)));
             worker_cost = dict_get (add_cost (worker_id event) (cost_gbp event)
                                       (worker_costs ct)) (worker_id event) 0;
             soft_cap = fmul worker_limit (fl (8 / 10));
             t70 = fmul limit (fl (7 / 10));
             t90 = fmul limit (fl (9 / 10))
         in soft_cap = 4 \<and> worker_limit = 5 \<and> t70 \<le> t90 \<and> t90 \<le> limit \<and>
            (\<exists>new. alerts (record_cost_event now event ct) = alerts ct @ new \<and>
               map (\<lambda>a. (severity a, alert_worker_id a, action_taken a)) new
                 = (if worker_cost \<le> soft_cap then []
                    else if worker_cost < worker_limit
                    then [(WARNING, worker_id event, Some ''notification_sent'')]
                    else [(CRITICAL, worker_id event, Some ''pause_non_essential'')])
                   @ (if total_cost \<le> t70 then []
                      else if total_cost \<le> t90
                      then [(WARNING, ''all'', Some ''notification_sent'')]
                      else if total_cost \<le> limit
                      then [(CRITICAL, ''all'', Some ''pause_non_essential'')]
                      else [(EMERGENCY, ''all'', Some ''emergency_shutdown'')]))"
proof -
  let ?ct1 = "ct\<lparr>cost_events := cost_events ct @ [event],
                 daily_costs := add_cost (service event) (cost_gbp event) (daily_costs ct),
                 worker_costs := add_cost (worker_id event) (cost_gbp event) (worker_costs ct)\<rparr>"
  have r: "alerts (record_cost_event now event ct)
             = alerts (check_cost_guardrails now event ?ct1)"
    by (simp add: record_cost_event_def Let_def)
  have l: "0 \<le> daily_limit_gbp ?ct1" "is_float (daily_limit_gbp ?ct1)"
    using assms by simp_all
  have f: "daily_total ?ct1
             = py_sum (dict_values (add_cost (service event) (cost_gbp event) (daily_costs ct)))"
    "worker_costs ?ct1 = add_cost (worker_id event) (cost_gbp event) (worker_costs ct)"
    "alerts ?ct1 = alerts ct" "daily_limit_gbp ?ct1 = daily_limit_gbp ct"
    by (simp_all add: daily_total_def)
  note L = check_cost_guardrails_alerts [OF l, of event now, unfolded Let_def f]
  show ?thesis
    unfolding Let_def r by (rule L)
qed

lemma example_floats:
  "is_float 20" "fmul 20 (fl (7 / 10)) = 14" "fmul 20 (fl (9 / 10)) = 18"
  "fl (37 / 2) = 37 / 2" "fl (19 / 4) = 19 / 4"
  by code_simp+

theorem C6_alert_severities_witness:
  "0 \<le> daily_limit_gbp spent_tracker \<and> is_float (daily_limit_gbp spent_tracker) \<and>
   (\<exists>new. alerts (record_cost_event 100 example_event spent_tracker)
             = alerts spent_tracker @ new \<and>
          map (\<lambda>a. (severity a, alert_worker_id a, action_taken a)) new
            = [(WARNING, ''Scraper-01'', Some ''notification_sent''),
               (CRITICAL, ''all'', Some ''pause_non_essential'')])"
  using C6_alert_severities [of spent_tracker example_event 100]
  by (simp add: Let_def spent_tracker_def example_tracker_def example_event_def add_cost_def
      dict_get_def py_sum_def dict_values_def fadd_def example_floats worker_limit_def)

subsection \<open>Running totals and the remaining budget\<close>

lemma handle_cost_alert_totals [simp]:
  "daily_costs (handle_cost_alert now a ct) = daily_costs ct"
  "worker_costs (handle_cost_alert now a ct) = worker_costs ct"
  "daily_limit_gbp (handle_cost_alert now a ct) = daily_limit_gbp ct"
  by (simp_all add: handle_cost_alert_def ct_emergency_shutdown_def
      ct_pause_non_essential_workers_def notify_project_manager_def Let_def)

lemma check_cost_guardrails_totals [simp]:
  "daily_costs (check_cost_guardrails now e ct) = daily_costs ct"
  "worker_costs (check_cost_guardrails now e ct) = worker_costs ct"
  "daily_limit_gbp (check_cost_guardrails now e ct) = daily_limit_gbp ct"
  by (simp_all add: check_cost_guardrails_def Let_def)

lemma record_cost_event_totals:
  "daily_costs (record_cost_event now e ct) = add_cost (service e) (cost_gbp e) (daily_costs ct)"
  "worker_costs (record_cost_event now e ct)
     = add_cost (worker_id e) (cost_gbp e) (worker_costs ct)"
  "daily_limit_gbp (record_cost_event now e ct) = daily_limit_gbp ct"
  by (simp_all add: record_cost_event_def save_daily_costs_def Let_def)

lemma record_all_totals:
  "daily_costs (record_all now evs ct)
     = fold (\<lambda>e. add_cost (service e) (cost_gbp e)) evs (daily_costs ct)"
  "worker_costs (record_all now evs ct)
     = fold (\<lambda>e. add_cost (worker_id e) (cost_gbp e)) evs (worker_costs ct)"
  "daily_limit_gbp (record_all now evs ct) = daily_limit_gbp ct"
  by (induction evs arbitrary: ct) (simp_all add: record_cost_event_totals)

lemma ten_tenths:
  "py_sum (dict_values (fold (\<lambda>e. add_cost (service e) (cost_gbp e))
                          (replicate 10 tenth_event) []))
     = 9007199254740991 / 9007199254740992"
  by code_simp

lemma ten_times_tenth:
  "10 * cost_gbp tenth_event = 36028797018963970 / 36028797018963968"
  "fmul 10 (cost_gbp tenth_event) = 1"
  by code_simp+

text \<open>
  C5, as stated, fails: the totals are floats and every addition rounds. On a tracker
  with nothing recorded, ten events that cost 0.1 each leave the daily total at
  0.9999999999999999 (the float below 1), which is neither ten times the cost 0.1
  taken exactly nor the float product \<^verbatim>\<open>10 * 0.1\<close>, which is 1.
\<close>

theorem C5_ten_tenths_counterexample:
  "daily_total example_tracker = 0 \<and>
   cost_gbp tenth_event = 3602879701896397 / 36028797018963968 \<and>
   daily_total (record_all 100 (replicate 10 tenth_event) example_tracker)
     = 9007199254740991 / 9007199254740992 \<and>
   10 * cost_gbp tenth_event = 36028797018963970 / 36028797018963968 \<and>
   fmul 10 (cost_gbp tenth_event) = 1"
proof -
  have "daily_total example_tracker = 0"
    by (simp add: daily_total_def example_tracker_def py_sum_def dict_values_def)
  moreover have "cost_gbp tenth_event = 3602879701896397 / 36028797018963968"
    by (simp add: tenth_event_def fl_tenth)
  moreover have "daily_total (record_all 100 (replicate 10 tenth_event) example_tracker)
     = 9007199254740991 / 9007199254740992"
    unfolding daily_total_def record_all_totals
    by (simp only: example_tracker_def CostTracker.simps ten_tenths)
  ultimately show ?thesis
    using ten_times_tenth by simp
qed


lemma fl_nonpos: "x \<le> 0 \<Longrightarrow> fl x \<le> 0"
proof (cases "x = 0")
  case True
  then show ?thesis by (simp add: fl_def)
next
  case False
  assume "x \<le> 0"
  then have "x / ulp x \<le> 0" by (simp add: divide_le_0_iff less_imp_le)
  then have "round_half_even (x / ulp x) \<le> round_half_even 0"
    by (rule round_half_even_mono)
  then have "round_half_even (x / ulp x) \<le> 0"
    using round_half_even_of_int [of 0] by simp
  then have "(of_int (round_half_even (x / ulp x)) :: rat) \<le> 0"
    by (simp only: of_int_le_0_iff)
  then have "of_int (round_half_even (x / ulp x)) * ulp x \<le> 0"
    by (intro mult_nonpos_nonneg) (simp_all add: less_imp_le)
  then show ?thesis using fl_ulp [OF False] by simp
qed

lemma dict_get_add_cost:
  "dict_get (add_cost k c d) k' 0 = (if k' = k then fadd (dict_get d k 0) c else dict_get d k' 0)"
  by (simp add: dict_get_def add_cost_def update_conv')

lemma sum_values_update:
  "sum_list (map snd (AList.update k v d))
     = sum_list (map snd d) - (case map_of d k of None \<Rightarrow> 0 | Some x \<Rightarrow> x) + (v::rat)"
  by (induction d) auto

lemma sum_values_add_cost:
  "sum_list (dict_values (add_cost k c d))
     = sum_list (dict_values d) - dict_get d k 0 + fadd (dict_get d k 0) c"
  by (simp add: dict_values_def add_cost_def sum_values_update dict_get_def)

lemma exact_steps_sum:
  "exact_steps evs d \<Longrightarrow>
   sum_list (dict_values (fold (\<lambda>e. add_cost (service e) (cost_gbp e)) evs d))
     = sum_list (dict_values d) + sum_list (map cost_gbp evs)"
proof (induction evs arbitrary: d)
  case Nil
  then show ?case by simp
next
  case (Cons e es)
  then show ?case
    by (simp add: sum_values_add_cost fadd_def is_float_def)
qed

lemma py_sum_snoc: "py_sum (xs @ [x]) = fadd (py_sum xs) x"
  by (simp add: py_sum_def)

lemma exact_sum_snoc:
  "exact_sum (xs @ [x]) \<Longrightarrow> exact_sum xs \<and> is_float (sum_list xs + x)"
proof -
  assume a: "exact_sum (xs @ [x])"
  have 1: "is_float (sum_list (take k (xs @ [x])))" if "k \<le> Suc (length xs)" for k
  proof -
    from a have "\<forall>k\<in>set [0..<Suc (length (xs @ [x]))].
                   is_float (sum_list (take k (xs @ [x])))"
      by (simp only: exact_sum_def list_all_iff)
    moreover have "k \<in> set [0..<Suc (length (xs @ [x]))]"
      using that by (simp only: set_upt atLeastLessThan_iff length_append list.size) simp
    ultimately show ?thesis by blast
  qed
  have 2: "is_float (sum_list (take k xs))" if "k \<le> length xs" for k
    using 1 [of k] that by simp
  have "\<forall>k\<in>set [0..<Suc (length xs)]. is_float (sum_list (take k xs))"
  proof
    fix k assume "k \<in> set [0..<Suc (length xs)]"
    then have "k \<le> length xs"
      by (simp only: set_upt atLeastLessThan_iff) simp
    then show "is_float (sum_list (take k xs))" by (rule 2)
  qed
  then have "exact_sum xs"
    by (simp only: exact_sum_def list_all_iff)
  moreover have "is_float (sum_list xs + x)"
    using 1 [of "Suc (length xs)"] by simp
  ultimately show ?thesis ..
qed

lemma py_sum_exact: "exact_sum xs \<Longrightarrow> py_sum xs = sum_list xs"
proof (induction xs rule: rev_induct)
  case Nil
  then show ?case by (simp add: py_sum_def)
next
  case (snoc x xs)
  from exact_sum_snoc [OF snoc.prems]
  have e: "exact_sum xs" and f: "is_float (sum_list xs + x)" by simp_all
  show ?case
    using snoc.IH [OF e] f by (simp add: py_sum_snoc fadd_def is_float_def)
qed

lemma sum_list_const: "list_all (\<lambda>e. cost_gbp e = c) evs \<Longrightarrow>
   sum_list (map cost_gbp evs) = of_nat (length evs) * c"
  by (induction evs) (simp_all add: algebra_simps)

text \<open>
  C5, amended: every record adds the cost of the event to the running total of its
  service and to that of its worker by one float addition. When no addition rounds
  (neither the additions to the running totals nor those of the sums over the
  services, before and after), recording \<open>N\<close> events that cost \<open>c\<close> each raises
  the daily total by exactly \<open>N * c\<close>. The remaining budget is the float difference
  of limit and total, clamped at zero: it is never negative, it is zero when the total
  has reached the limit, and it is the exact difference whenever that is a float.
\<close>

theorem C5_totals_and_remaining_budget:
  assumes "exact_steps evs (daily_costs ct)"
    and "exact_sum (dict_values (daily_costs ct))"
    and "exact_sum (dict_values (daily_costs (record_all now evs ct)))"
    and "list_all (\<lambda>e. cost_gbp e = c) evs"
  shows "daily_total (record_all now evs ct) = daily_total ct + of_nat (length evs) * c \<and>
         dict_get (daily_costs (record_cost_event now e ct)) (service e) 0
           = fadd (dict_get (daily_costs ct) (service e) 0) (cost_gbp e) \<and>
         dict_get (worker_costs (record_cost_event now e ct)) (worker_id e) 0
           = fadd (dict_get (worker_costs ct) (worker_id e) 0) (cost_gbp e) \<and>
         get_remaining_budget ct = max 0 (fsub (daily_limit_gbp ct) (daily_total ct)) \<and>
         0 \<le> get_remaining_budget ct \<and>
         (daily_limit_gbp ct \<le> daily_total ct \<longrightarrow> get_remaining_budget ct = 0) \<and>
         (daily_total ct \<le> daily_limit_gbp ct \<and>
          is_float (daily_limit_gbp ct - daily_total ct) \<longrightarrow>
            get_remaining_budget ct = daily_limit_gbp ct - daily_total ct)"
proof -
  have "daily_total (record_all now evs ct)
          = sum_list (dict_values (daily_costs (record_all now evs ct)))"
    unfolding daily_total_def using assms(3) by (rule py_sum_exact)
  also have "\<dots> = sum_list (dict_values (daily_costs ct)) + sum_list (map cost_gbp evs)"
    unfolding record_all_totals using assms(1) by (rule exact_steps_sum)
  also have "sum_list (dict_values (daily_costs ct)) = daily_total ct"
    unfolding daily_total_def using assms(2) by (rule py_sum_exact [symmetric])
  also have "sum_list (map cost_gbp evs) = of_nat (length evs) * c"
    using assms(4) by (rule sum_list_const)
  finally have total: "daily_total (record_all now evs ct)
                         = daily_total ct + of_nat (length evs) * c" .
  have zero: "get_remaining_budget ct = 0" if "daily_limit_gbp ct \<le> daily_total ct"
    using that fl_nonpos [of "daily_limit_gbp ct - daily_total ct"]
    by (simp add: get_remaining_budget_def fsub_def)
  have diff: "get_remaining_budget ct = daily_limit_gbp ct - daily_total ct"
    if "daily_total ct \<le> daily_limit_gbp ct"
      "is_float (daily_limit_gbp ct - daily_total ct)"
    using that by (simp add: get_remaining_budget_def fsub_def is_float_def)
  show ?thesis
    using total zero diff
    by (simp add: record_cost_event_totals dict_get_add_cost)
       (simp add: get_remaining_budget_def)
qed

lemma quarter_hyps:
  "exact_steps (replicate 3 quarter_event) []"
  "exact_sum []"
  "exact_sum (dict_values (fold (\<lambda>e. add_cost (service e) (cost_gbp e))
                             (replicate 3 quarter_event) []))"
  "list_all (\<lambda>e. cost_gbp e = 1 / 4) (replicate 3 quarter_event)"
  "fsub 20 (3 / 4) = 77 / 4"
  by code_simp+

theorem C5_totals_and_remaining_budget_witness:
  "exact_steps (replicate 3 quarter_event) (daily_costs example_tracker) \<and>
   exact_sum (dict_values (daily_costs example_tracker)) \<and>
   exact_sum (dict_values (daily_costs
                (record_all 100 (replicate 3 quarter_event) example_tracker))) \<and>
   list_all (\<lambda>e. cost_gbp e = 1 / 4) (replicate 3 quarter_event) \<and>
   daily_total example_tracker = 0 \<and>
   daily_total (record_all 100 (replicate 3 quarter_event) example_tracker) = 3 / 4 \<and>
   get_remaining_budget (record_all 100 (replicate 3 quarter_event) example_tracker)
     = 77 / 4"
proof -
  have d: "daily_costs example_tracker = []"
    and l: "daily_limit_gbp example_tracker = 20"
    by (simp_all add: example_tracker_def)
  have t0: "daily_total example_tracker = 0"
    by (simp add: daily_total_def d py_sum_def dict_values_def)
  have h: "exact_steps (replicate 3 quarter_event) (daily_costs example_tracker)"
    "exact_sum (dict_values (daily_costs example_tracker))"
    "exact_sum (dict_values (daily_costs
                (record_all 100 (replicate 3 quarter_event) example_tracker)))"
    "list_all (\<lambda>e. cost_gbp e = 1 / 4) (replicate 3 quarter_event)"
    unfolding record_all_totals d using quarter_hyps by (simp_all add: dict_values_def)
  from C5_totals_and_remaining_budget [OF h, of quarter_event]
  have t: "daily_total (record_all 100 (replicate 3 quarter_event) example_tracker) = 3 / 4"
    by (simp add: t0)
  have "get_remaining_budget (record_all 100 (replicate 3 quarter_event) example_tracker)
          = 77 / 4"
    by (simp add: get_remaining_budget_def t record_all_totals l quarter_hyps)
  with h t0 t show ?thesis by simp
qed

end
